theory Spec2Isabelle
  imports Complex_Main "HOL-Library.Log_Nat"
begin

section \<open>Numbers and rounding\<close>

text \<open>
  The TypeScript sources compute with \<open>number\<close>, the IEEE 754 double. A double is modelled
  by the rational it denotes. \<open>fl\<close> rounds a rational to the nearest double, a tie going to
  the even significand: the significand has 53 bits, and below \<open>2^-1022\<close> the spacing stays
  at \<open>2^-1074\<close> (the subnormal numbers). The exponent has no upper limit in the model, so a
  result beyond the largest double (about \<open>1.8 * 10^308\<close>), which the machine replaces by
  Infinity, is outside it. An arithmetic operation on doubles is the exact operation followed
  by \<open>fl\<close>.
\<close>

definition pow2 :: "int \<Rightarrow> rat" where
  "pow2 e = (if 0 \<le> e then 2 ^ nat e else 1 / 2 ^ nat (- e))"

text \<open>\<open>ilog2 y\<close> is the exponent of \<open>y > 0\<close>: the \<open>k\<close> with \<open>2^k \<le> y < 2^(k+1)\<close>.\<close>

definition ilog2 :: "rat \<Rightarrow> int" where
  "ilog2 y =
    (let (p, q) = quotient_of y;
         k = bitlen p - bitlen q
     in if pow2 k \<le> y then k else k - 1)"

definition round_half_even :: "rat \<Rightarrow> int" where
  "round_half_even x =
    (let f = \<lfloor>x\<rfloor>;
         d = x - of_int f
     in if d < 1 / 2 then f else if 1 / 2 < d then f + 1 else if even f then f else f + 1)"

definition fl :: "rat \<Rightarrow> rat" where
  "fl x =
    (if x = 0 then 0
     else (let e = max (ilog2 \<bar>x\<bar> - 52) (- 1074)
           in of_int (round_half_even (x / pow2 e)) * pow2 e))"

definition add_d :: "rat \<Rightarrow> rat \<Rightarrow> rat" where
  "add_d a b = fl (a + b)"

definition sub_d :: "rat \<Rightarrow> rat \<Rightarrow> rat" where
  "sub_d a b = fl (a - b)"

definition mul_d :: "rat \<Rightarrow> rat \<Rightarrow> rat" where
  "mul_d a b = fl (a * b)"

definition div_d :: "rat \<Rightarrow> rat \<Rightarrow> rat" where
  "div_d a b = fl (a / b)"

text \<open>
  \<open>Math.round(x)\<close> is the integer nearest to \<open>x\<close>, a tie going towards plus infinity;
  it is exact. \<open>round2_d\<close> is \<open>Math.round(v * 100) / 100\<close> in doubles.
\<close>

definition Math_round :: "rat \<Rightarrow> int" where
  "Math_round x = \<lfloor>x + 1 / 2\<rfloor>"

definition round2_d :: "rat \<Rightarrow> rat" where
  "round2_d v = div_d (of_int (Math_round (mul_d v 100))) 100"

text \<open>
  The amounts of the wallet are modelled as the decimals they stand for: sums and differences
  of amounts are exact, and the rounding of the pre-save middleware is \<open>round2\<close>, the
  exact \<open>\<lfloor>100 v + 1/2\<rfloor> / 100\<close>. On whole numbers of cents below \<open>2^53\<close> cents the
  machine's result is the double nearest to the exact one. A value is a whole number of cents
  when a hundred times it is an integer.
\<close>

definition round2 :: "rat \<Rightarrow> rat" where
  "round2 v = of_int (Math_round (v * 100)) / 100"

definition is_cents :: "rat \<Rightarrow> bool" where
  "is_cents v = (of_int \<lfloor>v * 100\<rfloor> = v * 100)"

section \<open>Fare calculation\<close>

record IFareBreakdown =
  baseFare :: rat
  distanceFare :: rat
  timeFare :: rat
  surgeMultiplier :: rat
  discount :: rat
  tax :: rat
  tip :: rat
  totalFare :: rat

text \<open>
  \<open>TripSchema.methods.calculateFare\<close> reads the trip's estimated distance and duration and
  the surge multiplier, discount and tip of its current fare breakdown. \<open>discount || 0\<close>
  and \<open>tip || 0\<close> are the identity on numbers (zero is mapped to zero). The literals 2.50
  and 0.25 are doubles; 1.20 and 0.08 denote the doubles nearest to them. Sums and products
  associate to the left, as the source writes them.
\<close>

definition trip_calculateFare :: "rat \<Rightarrow> rat \<Rightarrow> IFareBreakdown \<Rightarrow> IFareBreakdown" where
  "trip_calculateFare estimatedDistance estimatedDuration fb =
    (let baseFare = 250 / 100;
         perKmRate = fl (120 / 100);
         perMinuteRate = 25 / 100;
         taxRate = fl (8 / 100);
         distanceFare = mul_d estimatedDistance perKmRate;
         timeFare = mul_d estimatedDuration perMinuteRate;
         subtotal = mul_d (add_d (add_d baseFare distanceFare) timeFare) (surgeMultiplier fb);
         discountAmount = (if discount fb = 0 then 0 else discount fb);
         tax = mul_d (sub_d subtotal discountAmount) taxRate;
         tip = (if tip fb = 0 then 0 else tip fb);
         totalFare = add_d (add_d (sub_d subtotal discountAmount) tax) tip
     in \<lparr> baseFare = baseFare, distanceFare = distanceFare, timeFare = timeFare,
          surgeMultiplier = surgeMultiplier fb, discount = discountAmount, tax = tax,
          tip = tip, totalFare = round2_d totalFare \<rparr>)"

text \<open>
  \<open>RideService.calculateFare(distance, duration, vehicleType?)\<close>: the per-kilometre rate
  depends on the vehicle type, the surge multiplier is the constant 1, and there is neither
  discount nor tip.
\<close>

definition calculateFare :: "rat \<Rightarrow> rat \<Rightarrow> string option \<Rightarrow> IFareBreakdown" where
  "calculateFare distance duration vehicleType =
    (let baseFare = 250 / 100;
         perKmRate = (if vehicleType = Some ''luxury'' then 2 else fl (120 / 100));
         perMinuteRate = 25 / 100;
         taxRate = fl (8 / 100);
         distanceFare = mul_d distance perKmRate;
         timeFare = mul_d duration perMinuteRate;
         surgeMultiplier = 1;
         subtotal = mul_d (add_d (add_d baseFare distanceFare) timeFare) surgeMultiplier;
         tax = mul_d subtotal taxRate;
         totalFare = add_d subtotal tax
     in \<lparr> baseFare = baseFare, distanceFare = distanceFare, timeFare = timeFare,
          surgeMultiplier = surgeMultiplier, discount = 0, tax = tax,
          tip = 0, totalFare = round2_d totalFare \<rparr>)"

text \<open>
  The subtotal is a local of both functions; it is recovered from the breakdown. Beside it,
  the total of the formula in exact arithmetic, rounded half up to cents.
\<close>

definition subtotal :: "IFareBreakdown \<Rightarrow> rat" where
  "subtotal fb =
    mul_d (add_d (add_d (baseFare fb) (distanceFare fb)) (timeFare fb)) (surgeMultiplier fb)"

text \<open>
  The arguments of the fare functions are doubles. The model of \<open>fl\<close> has no overflow, so
  the statements about fares are made for doubles between 0 and a million.
\<close>

definition fare_input :: "rat \<Rightarrow> bool" where
  "fare_input x = (fl x = x \<and> 0 \<le> x \<and> x \<le> 1000000)"

definition exact_total :: "rat \<Rightarrow> rat \<Rightarrow> rat \<Rightarrow> rat \<Rightarrow> rat \<Rightarrow> rat \<Rightarrow> rat" where
  "exact_total perKmRate distance duration surge discount' tip' =
    (let subtotal = (250 / 100 + distance * perKmRate + duration * (25 / 100)) * surge;
         tax = (subtotal - discount') * (8 / 100)
     in round2 (subtotal - discount' + tax + tip'))"

section \<open>Wallet ledger\<close>

subsection \<open>Data\<close>

type_synonym ObjectId = string

datatype TransactionType = CREDIT | DEBIT

datatype TransactionStatus = PENDING | COMPLETED | FAILED | CANCELLED

datatype TransactionCategory =
  RIDE_PAYMENT | RIDE_EARNING | WALLET_TOPUP | WITHDRAWAL | REFUND | TIP | BONUS | PENALTY

text \<open>
  Of a \<open>Date\<close> the wallet code reads the calendar components only
  (\<open>getDate\<close>, \<open>getMonth\<close>, \<open>getFullYear\<close>). Every operation receives the current
  date \<open>now\<close> as an argument; it stands for the \<open>new Date()\<close> calls of one invocation.
\<close>

record Date =
  getFullYear :: int
  getMonth :: nat
  getDate :: nat

text \<open>
  Errors are the values thrown: \<open>new Error(message)\<close>, the \<open>ZodError\<close> of a request
  schema that rejects its input, and the \<open>ValidationError\<close> of a save whose document
  violates its schema. The message of a \<open>ZodError\<close> is the JSON text of its issues and
  that of a \<open>ValidationError\<close> lists the failing paths; the model keeps the message of the
  violated constraint and the name of the model. \<open>message\<close> is \<open>error.message\<close> and
  \<open>error_text\<close> is the text of \<open>${error}\<close>.
\<close>

datatype error = Error string | ZodError string | ValidationError string

fun message :: "error \<Rightarrow> string" where
  "message (Error m) = m"
| "message (ZodError m) = m"
| "message (ValidationError m) = m"

fun error_text :: "error \<Rightarrow> string" where
  "error_text (Error m) = ''Error: '' @ m"
| "error_text (ZodError m) = ''ZodError: '' @ m"
| "error_text (ValidationError m) = ''ValidationError: '' @ m"

text \<open>
  \<open>Partial<ITransaction>\<close>, the argument of \<open>addTransaction\<close>: the status may be
  \<open>undefined\<close>. The generated \<open>_id\<close> and the opaque gateway response are left out of both
  records.
\<close>

record Partial_ITransaction =
  type :: TransactionType
  amount :: rat
  category :: TransactionCategory
  status :: "TransactionStatus option"
  description :: string
  referenceId :: "string option"
  paymentMethod :: "string option"

record ITransaction =
  type :: TransactionType
  amount :: rat
  category :: TransactionCategory
  status :: TransactionStatus
  description :: string
  referenceId :: "string option"
  paymentMethod :: "string option"
  createdAt :: Date
  completedAt :: "Date option"

record IWallet =
  userId :: ObjectId
  balance :: rat
  currency :: string
  isActive :: bool
  transactions :: "ITransaction list"
  dailyLimit :: rat
  monthlyLimit :: rat
  dailySpent :: rat
  monthlySpent :: rat
  lastResetDate :: Date

text \<open>
  The wallet collection. \<open>userId\<close> carries a unique index and every query of the payment
  service selects by it, so the collection is a map from user ids to wallet documents. A
  document method works on the in-memory document; only \<open>save\<close> writes it to the collection.
\<close>

type_synonym wallets = "ObjectId \<rightharpoonup> IWallet"

subsection \<open>Document methods\<close>

text \<open>
  The validators of the two schemas: every numeric path has \<open>min: 0\<close>, and the description
  of a transaction is required (not empty) and at most 255 characters long. The enum and
  required paths that hold a constructor of the model are valid by their type.
\<close>

definition Transaction_valid :: "ITransaction \<Rightarrow> bool" where
  "Transaction_valid t =
    (0 \<le> ITransaction.amount t \<and> ITransaction.description t \<noteq> [] \<and>
     length (ITransaction.description t) \<le> 255)"

definition Wallet_valid :: "IWallet \<Rightarrow> bool" where
  "Wallet_valid w =
    (0 \<le> balance w \<and> 0 \<le> dailyLimit w \<and> 0 \<le> monthlyLimit w \<and> 0 \<le> dailySpent w \<and>
     0 \<le> monthlySpent w \<and> list_all Transaction_valid (transactions w))"

text \<open>The pre-save middleware: clamp a negative balance to zero, then round to cents.\<close>

definition pre_save :: "IWallet \<Rightarrow> IWallet" where
  "pre_save w =
    (let w1 = (if balance w < 0 then w\<lparr>balance := 0\<rparr> else w)
     in w1\<lparr>balance := round2 (balance w1)\<rparr>)"

text \<open>
  \<open>save\<close> validates the document first, before the pre-save middleware of the schema
  runs; a document that fails is rejected with a \<open>ValidationError\<close>, stays as it is in
  memory, and nothing is written. Otherwise the pre-save middleware runs and the document is
  written under its user id. Validation looks at every path of a new document and at the
  paths set since a document was loaded; the paths left alone satisfied the validators when
  the document was stored, so the model validates the whole document. The result is the
  outcome, the document in memory and the collection.
\<close>

definition save :: "IWallet \<Rightarrow> wallets \<Rightarrow> (error + unit) \<times> IWallet \<times> wallets" where
  "save w db =
    (if \<not> Wallet_valid w then (Inl (ValidationError ''Wallet validation failed''), w, db)
     else (let w' = pre_save w in (Inr (), w', db(IWallet.userId w' \<mapsto> w'))))"

definition addTransaction ::
  "Date \<Rightarrow> Partial_ITransaction \<Rightarrow> IWallet \<Rightarrow> wallets \<Rightarrow> (error + unit) \<times> IWallet \<times> wallets" where
  "addTransaction now transactionData w db =
    (let transaction =
           \<lparr> ITransaction.type = Partial_ITransaction.type transactionData,
             ITransaction.amount = Partial_ITransaction.amount transactionData,
             ITransaction.category = Partial_ITransaction.category transactionData,
             ITransaction.status =
               (case Partial_ITransaction.status transactionData of
                  None \<Rightarrow> PENDING | Some s \<Rightarrow> s),
             ITransaction.description = Partial_ITransaction.description transactionData,
             ITransaction.referenceId = Partial_ITransaction.referenceId transactionData,
             ITransaction.paymentMethod = Partial_ITransaction.paymentMethod transactionData,
             createdAt = now,
             completedAt =
               (if Partial_ITransaction.status transactionData = Some COMPLETED
                then Some now else None) \<rparr>;
         w1 = w\<lparr>transactions := transactions w @ [transaction]\<rparr>;
         w2 = (if ITransaction.status transaction = COMPLETED then
                 (if ITransaction.type transaction = CREDIT then
                    w1\<lparr>balance := balance w1 + ITransaction.amount transaction\<rparr>
                  else if ITransaction.type transaction = DEBIT then
                    w1\<lparr>balance := balance w1 - ITransaction.amount transaction,
                       dailySpent := dailySpent w1 + ITransaction.amount transaction,
                       monthlySpent := monthlySpent w1 + ITransaction.amount transaction\<rparr>
                  else w1)
               else w1)
     in save w2 db)"

definition resetLimits :: "Date \<Rightarrow> IWallet \<Rightarrow> IWallet" where
  "resetLimits now w =
    (let lastReset = lastResetDate w;
         w1 = (if getDate now \<noteq> getDate lastReset \<or>
                  getMonth now \<noteq> getMonth lastReset \<or>
                  getFullYear now \<noteq> getFullYear lastReset
               then w\<lparr>dailySpent := 0\<rparr> else w);
         w2 = (if getMonth now \<noteq> getMonth lastReset \<or>
                  getFullYear now \<noteq> getFullYear lastReset
               then w1\<lparr>monthlySpent := 0\<rparr> else w1)
     in w2\<lparr>lastResetDate := now\<rparr>)"

text \<open>
  \<open>canSpend\<close> mutates the document through \<open>resetLimits\<close>; it returns the answer and
  the document. The two sums it compares with the limits are sums of doubles.
\<close>

definition canSpend :: "Date \<Rightarrow> rat \<Rightarrow> IWallet \<Rightarrow> bool \<times> IWallet" where
  "canSpend now amount' w =
    (let w' = resetLimits now w
     in (add_d (dailySpent w') amount' \<le> dailyLimit w' \<and>
         add_d (monthlySpent w') amount' \<le> monthlyLimit w',
         w'))"

text \<open>
  \<open>debit\<close> and \<open>credit\<close> return the outcome, the in-memory document after the call and
  the collection after the call. A failure of \<open>addTransaction\<close> is caught and thrown again
  as a plain error. A parameter whose name is also a field name is written with a prime
  (\<open>amount'\<close> is the source's parameter \<open>amount\<close>).
\<close>

definition debit ::
  "Date \<Rightarrow> rat \<Rightarrow> TransactionCategory \<Rightarrow> string \<Rightarrow> string option \<Rightarrow> IWallet \<Rightarrow> wallets
    \<Rightarrow> (error + bool) \<times> IWallet \<times> wallets" where
  "debit now amount' category' description' referenceId' w db =
    (if \<not> isActive w then (Inl (Error ''Wallet is not active''), w, db)
     else if balance w < amount' then (Inl (Error ''Insufficient balance''), w, db)
     else
       (let (ok, w1) = canSpend now amount' w in
        if \<not> ok then (Inl (Error ''Transaction exceeds spending limits''), w1, db)
        else
          (case addTransaction now
                  \<lparr> Partial_ITransaction.type = DEBIT,
                    Partial_ITransaction.amount = amount',
                    Partial_ITransaction.category = category',
                    Partial_ITransaction.status = Some COMPLETED,
                    Partial_ITransaction.description = description',
                    Partial_ITransaction.referenceId = referenceId',
                    Partial_ITransaction.paymentMethod = None \<rparr> w1 db of
             (Inl e, w2, db') \<Rightarrow>
               (Inl (Error (''Debit transaction failed: '' @ error_text e)), w2, db')
           | (Inr u, w2, db') \<Rightarrow> (Inr True, w2, db'))))"

definition credit ::
  "Date \<Rightarrow> rat \<Rightarrow> TransactionCategory \<Rightarrow> string \<Rightarrow> string option \<Rightarrow> IWallet \<Rightarrow> wallets
    \<Rightarrow> (error + bool) \<times> IWallet \<times> wallets" where
  "credit now amount' category' description' referenceId' w db =
    (if \<not> isActive w then (Inl (Error ''Wallet is not active''), w, db)
     else
       (case addTransaction now
               \<lparr> Partial_ITransaction.type = CREDIT,
                 Partial_ITransaction.amount = amount',
                 Partial_ITransaction.category = category',
                 Partial_ITransaction.status = Some COMPLETED,
                 Partial_ITransaction.description = description',
                 Partial_ITransaction.referenceId = referenceId',
                 Partial_ITransaction.paymentMethod = None \<rparr> w db of
          (Inl e, w2, db') \<Rightarrow>
            (Inl (Error (''Credit transaction failed: '' @ error_text e)), w2, db')
        | (Inr u, w2, db') \<Rightarrow> (Inr True, w2, db')))"

text \<open>The two sums of the ledger invariant, over the wallet's own transaction log.\<close>

definition completed_credits :: "IWallet \<Rightarrow> rat" where
  "completed_credits w =
    sum_list (map ITransaction.amount
      (filter (\<lambda>t. ITransaction.type t = CREDIT \<and> ITransaction.status t = COMPLETED)
         (transactions w)))"

definition completed_debits :: "IWallet \<Rightarrow> rat" where
  "completed_debits w =
    sum_list (map ITransaction.amount
      (filter (\<lambda>t. ITransaction.type t = DEBIT \<and> ITransaction.status t = COMPLETED)
         (transactions w)))"

section \<open>Trips and drivers: data\<close>

datatype TripStatus = REQUESTED | ACCEPTED | DRIVER_ARRIVED | IN_PROGRESS | COMPLETED | CANCELLED

datatype PaymentStatus = PENDING | PROCESSING | COMPLETED | FAILED | REFUNDED

datatype PaymentMethod = WALLET | CREDIT_CARD | CASH

datatype DriverStatus = PENDING | APPROVED | REJECTED | SUSPENDED

datatype DriverAvailability = ONLINE | OFFLINE | BUSY

datatype UserRole = PASSENGER | DRIVER | ADMIN

text \<open>The string values of the enums, as they appear in messages and requests.\<close>

fun TripStatus_value :: "TripStatus \<Rightarrow> string" where
  "TripStatus_value REQUESTED = ''requested''"
| "TripStatus_value ACCEPTED = ''accepted''"
| "TripStatus_value DRIVER_ARRIVED = ''driver_arrived''"
| "TripStatus_value IN_PROGRESS = ''in_progress''"
| "TripStatus_value TripStatus.COMPLETED = ''completed''"
| "TripStatus_value TripStatus.CANCELLED = ''cancelled''"

fun PaymentMethod_value :: "PaymentMethod \<Rightarrow> string" where
  "PaymentMethod_value WALLET = ''wallet''"
| "PaymentMethod_value CREDIT_CARD = ''credit_card''"
| "PaymentMethod_value CASH = ''cash''"

record ILocation =
  coordinates :: "rat \<times> rat"
  address :: string
  placeId :: "string option"

text \<open>
  Of a driver document the ride code reads and writes the fields below; \<open>oid\<close> is the
  document's \<open>_id\<close>, \<open>vehicle_type\<close> is \<open>vehicle.type\<close>, and the two counters are those of
  \<open>stats\<close>.
\<close>

record IDriver =
  oid :: ObjectId
  userId :: ObjectId
  driverStatus :: DriverStatus
  availability :: DriverAvailability
  vehicle_type :: string
  currentLocation :: "(rat \<times> rat) option"
  totalTrips :: nat
  totalEarnings :: rat

text \<open>
  A trip refers to its driver by id. A query with \<open>populate('driverId')\<close> replaces the id by
  the driver document; without it the field holds the bare id, which has no \<open>userId\<close>.
\<close>

datatype driver_ref = Ref ObjectId | Doc IDriver

record ITrip =
  oid :: ObjectId
  passengerId :: ObjectId
  driverId :: "driver_ref option"
  status :: TripStatus
  pickupLocation :: ILocation
  dropoffLocation :: ILocation
  estimatedDistance :: rat
  estimatedDuration :: rat
  fareBreakdown :: IFareBreakdown
  paymentMethod :: PaymentMethod
  paymentStatus :: PaymentStatus
  requestedAt :: Date
  acceptedAt :: "Date option"
  driverArrivedAt :: "Date option"
  startedAt :: "Date option"
  completedAt :: "Date option"
  cancelledAt :: "Date option"
  cancellationReason :: "string option"
  cancelledBy :: "string option"
  specialInstructions :: "string option"
  vehicleType :: string

text \<open>The id a reference stands for, and \<open>ref.userId\<close> (undefined on a bare id).\<close>

fun ref_id :: "driver_ref \<Rightarrow> ObjectId" where
  "ref_id (Ref i) = i"
| "ref_id (Doc d) = IDriver.oid d"

fun ref_userId :: "driver_ref \<Rightarrow> ObjectId option" where
  "ref_userId (Ref i) = None"
| "ref_userId (Doc d) = Some (IDriver.userId d)"

text \<open>\<open>Trip.findById\<close>, which is also the private action \<open>ride.findById\<close>.\<close>

definition Trip_findById :: "ObjectId \<Rightarrow> ITrip list \<Rightarrow> ITrip option" where
  "Trip_findById tripId trips = find (\<lambda>t. ITrip.oid t = tripId) trips"

section \<open>Payment service\<close>

text \<open>
  Each action takes the current date, the caller (\<open>ctx.meta.user?.userId\<close>), its parameters
  and the wallet collection, and returns its outcome with the collection after the call. The
  events an action emits on the broker do not act on the wallets and are left out. An action
  that parses its parameters inside its \<open>try\<close> throws a schema failure again as a plain
  error with the same message, as it does every other error it catches.
\<close>

text \<open>
  \<open>createWalletForUser\<close> inserts a new document; the unique index on \<open>userId\<close> rejects
  the insert when the user has a wallet already.
\<close>

definition createWalletForUser ::
  "Date \<Rightarrow> ObjectId \<Rightarrow> wallets \<Rightarrow> (error + IWallet) \<times> wallets" where
  "createWalletForUser now userId' db =
    (if db userId' \<noteq> None then (Inl (Error ''E11000 duplicate key error''), db)
     else
       (case save \<lparr> IWallet.userId = userId', balance = 0, currency = ''USD'',
                    isActive = True, transactions = [], dailyLimit = 500,
                    monthlyLimit = 5000, dailySpent = 0, monthlySpent = 0,
                    lastResetDate = now \<rparr> db of
          (Inl e, wallet, db') \<Rightarrow> (Inl e, db')
        | (Inr u, wallet, db') \<Rightarrow> (Inr wallet, db')))"

definition getWallet :: "Date \<Rightarrow> ObjectId option \<Rightarrow> wallets \<Rightarrow> (error + IWallet) \<times> wallets" where
  "getWallet now user db =
    (case user of
       None \<Rightarrow> (Inl (Error ''User not authenticated''), db)
     | Some userId' \<Rightarrow>
         (case (case db userId' of
                  None \<Rightarrow> createWalletForUser now userId' db
                | Some w \<Rightarrow> (Inr w, db)) of
            (Inl e, db1) \<Rightarrow> (Inl (Error ''Failed to get wallet information''), db1)
          | (Inr wallet, db1) \<Rightarrow>
              (case save (resetLimits now wallet) db1 of
                 (Inl e, wallet', db2) \<Rightarrow>
                   (Inl (Error ''Failed to get wallet information''), db2)
               | (Inr u, wallet', db2) \<Rightarrow> (Inr wallet', db2))))"

text \<open>
  \<open>processStripePayment\<close> is a mock that always reports success, so the topup reaches
  \<open>addTransaction\<close> whenever the method is \<open>'stripe'\<close> and a non-empty token is given.
\<close>

definition topupWallet ::
  "Date \<Rightarrow> ObjectId option \<Rightarrow> rat \<Rightarrow> string \<Rightarrow> string option \<Rightarrow> wallets
    \<Rightarrow> (error + IWallet) \<times> wallets" where
  "topupWallet now user amount' paymentMethod' paymentToken db =
    (case user of
       None \<Rightarrow> (Inl (Error ''User not authenticated''), db)
     | Some userId' \<Rightarrow>
         if amount' < 1 then (Inl (Error ''Amount must be greater than 0''), db)
         else if 1000 < amount' then (Inl (Error ''Maximum topup amount is $1000''), db)
         else if paymentMethod' = [] then (Inl (Error ''Payment method is required''), db)
         else
           (case db userId' of
              None \<Rightarrow> (Inl (Error ''Wallet not found''), db)
            | Some wallet \<Rightarrow>
                if \<not> isActive wallet then (Inl (Error ''Wallet is not active''), db)
                else if paymentMethod' = ''stripe'' \<and> paymentToken \<noteq> None \<and> paymentToken \<noteq> Some []
                then
                  (case addTransaction now
                          \<lparr> Partial_ITransaction.type = CREDIT,
                            Partial_ITransaction.amount = amount',
                            Partial_ITransaction.category = WALLET_TOPUP,
                            Partial_ITransaction.status = Some TransactionStatus.COMPLETED,
                            Partial_ITransaction.description =
                              ''Wallet topup via '' @ paymentMethod',
                            Partial_ITransaction.referenceId = None,
                            Partial_ITransaction.paymentMethod = Some paymentMethod' \<rparr>
                          wallet db of
                     (Inl e, wallet', db') \<Rightarrow> (Inl (Error (message e)), db')
                   | (Inr u, wallet', db') \<Rightarrow> (Inr wallet', db'))
                else (Inl (Error ''Invalid payment method''), db)))"

record bankAccount =
  accountNumber :: string
  routingNumber :: string
  accountHolderName :: string

text \<open>
  \<open>withdrawFromWallet\<close> passes \<open>status: TransactionStatus.PROCESSING\<close>. The enum
  \<open>TransactionStatus\<close> of the wallet model has the members PENDING, COMPLETED, FAILED and
  CANCELLED only, so the expression evaluates to \<open>undefined\<close>: the status handed to
  \<open>addTransaction\<close> is \<open>None\<close>. \<open>accountNumber.slice(-4)\<close> is the last four characters.
\<close>

definition withdrawFromWallet ::
  "Date \<Rightarrow> ObjectId option \<Rightarrow> rat \<Rightarrow> bankAccount \<Rightarrow> wallets \<Rightarrow> (error + IWallet) \<times> wallets" where
  "withdrawFromWallet now user amount' bankAccount' db =
    (case user of
       None \<Rightarrow> (Inl (Error ''User not authenticated''), db)
     | Some userId' \<Rightarrow>
         if amount' < 10 then (Inl (Error ''Minimum withdrawal amount is $10''), db)
         else if accountNumber bankAccount' = [] then
           (Inl (Error ''Account number is required''), db)
         else if routingNumber bankAccount' = [] then
           (Inl (Error ''Routing number is required''), db)
         else if accountHolderName bankAccount' = [] then
           (Inl (Error ''Account holder name is required''), db)
         else
           (case db userId' of
              None \<Rightarrow> (Inl (Error ''Wallet not found''), db)
            | Some wallet \<Rightarrow>
                if \<not> isActive wallet then (Inl (Error ''Wallet is not active''), db)
                else if balance wallet < amount' then (Inl (Error ''Insufficient balance''), db)
                else
                  (case addTransaction now
                          \<lparr> Partial_ITransaction.type = DEBIT,
                            Partial_ITransaction.amount = amount',
                            Partial_ITransaction.category = WITHDRAWAL,
                            Partial_ITransaction.status = None,
                            Partial_ITransaction.description =
                              ''Withdrawal to bank account ending in '' @
                              drop (length (accountNumber bankAccount') - 4)
                                (accountNumber bankAccount'),
                            Partial_ITransaction.referenceId = None,
                            Partial_ITransaction.paymentMethod = None \<rparr>
                          wallet db of
                     (Inl e, wallet', db') \<Rightarrow> (Inl (Error (message e)), db')
                   | (Inr u, wallet', db') \<Rightarrow> (Inr wallet', db'))))"

text \<open>
  \<open>transferMoney\<close>: \<open>transferId\<close> stands for the generated \<open>tf_<timestamp>\<close>. The
  sender document is first mutated by \<open>canSpend\<close> and then debited; the recipient document was
  loaded before the debit and is credited afterwards. \<open>description || d\<close> picks \<open>d\<close> when the
  description is absent or empty.
\<close>

definition transferMoney ::
  "Date \<Rightarrow> string \<Rightarrow> ObjectId option \<Rightarrow> ObjectId \<Rightarrow> rat \<Rightarrow> string option \<Rightarrow> wallets
    \<Rightarrow> (error + string) \<times> wallets" where
  "transferMoney now transferId user recipientId amount' description' db =
    (case user of
       None \<Rightarrow> (Inl (Error ''User not authenticated''), db)
     | Some userId' \<Rightarrow>
         if recipientId = [] then (Inl (Error ''Recipient ID is required''), db)
         else if amount' < 1 then (Inl (Error ''Amount must be greater than 0''), db)
         else if (case description' of None \<Rightarrow> False | Some d \<Rightarrow> 255 < length d) then
           (Inl (Error ''String must contain at most 255 character(s)''), db)
         else if recipientId = userId' then (Inl (Error ''Cannot transfer to yourself''), db)
         else
           (case db userId' of
              None \<Rightarrow> (Inl (Error ''Sender wallet not found''), db)
            | Some senderWallet \<Rightarrow>
                (case db recipientId of
                   None \<Rightarrow> (Inl (Error ''Recipient wallet not found''), db)
                 | Some recipientWallet \<Rightarrow>
                     if \<not> isActive senderWallet \<or> \<not> isActive recipientWallet then
                       (Inl (Error ''One or both wallets are not active''), db)
                     else
                       (let (ok, senderWallet1) = canSpend now amount' senderWallet in
                        if \<not> ok then (Inl (Error ''Transfer exceeds spending limits''), db)
                        else
                          (case debit now amount' WALLET_TOPUP
                                  (case description' of
                                     None \<Rightarrow> ''Transfer to user '' @ recipientId
                                   | Some d \<Rightarrow>
                                       if d = [] then ''Transfer to user '' @ recipientId else d)
                                  (Some transferId) senderWallet1 db of
                             (Inl e, _, db1) \<Rightarrow> (Inl (Error (message e)), db1)
                           | (Inr _, _, db1) \<Rightarrow>
                               (case credit now amount' WALLET_TOPUP
                                       (case description' of
                                          None \<Rightarrow> ''Transfer from user '' @ userId'
                                        | Some d \<Rightarrow>
                                            if d = [] then ''Transfer from user '' @ userId'
                                            else d)
                                       (Some transferId) recipientWallet db1 of
                                  (Inl e, _, db2) \<Rightarrow> (Inl (Error (message e)), db2)
                                | (Inr _, _, db2) \<Rightarrow>
                                    (Inr ''Money transferred successfully'', db2)))))))"

text \<open>
  \<open>processRidePayment\<close> and \<open>refundPayment\<close> first ask the ride service for the trip, with
  \<open>this.broker.call('ride.findById', { tripId })\<close>. The ride service is registered with
  \<open>version: 1\<close>, which names its actions \<open>v1.ride.*\<close>, and it declares \<open>findById\<close> with
  \<open>visibility: 'private'\<close>, which keeps the action from the broker: no action answers to
  \<open>ride.findById\<close> and the call is rejected, whatever the trips are.
\<close>

definition broker_call_ride_findById :: "ObjectId \<Rightarrow> ITrip list \<Rightarrow> error + ITrip option" where
  "broker_call_ride_findById tripId trips = Inl (Error ''Service ride.findById is not found.'')"

text \<open>
  Both actions catch every error and answer \<open>{ success: false }\<close>; what was saved before
  the error stays saved. \<open>Wallet.findOne({ userId: u })\<close> with \<open>u\<close> undefined finds no
  wallet, every wallet having a user id.
\<close>

record payment_result =
  success :: bool
  transactionId :: "string option"

definition Wallet_findOne :: "ObjectId option \<Rightarrow> wallets \<Rightarrow> IWallet option" where
  "Wallet_findOne u db = (case u of None \<Rightarrow> None | Some userId' \<Rightarrow> db userId')"

definition processRidePayment ::
  "Date \<Rightarrow> ObjectId \<Rightarrow> rat \<Rightarrow> string \<Rightarrow> ITrip list \<Rightarrow> wallets \<Rightarrow> payment_result \<times> wallets" where
  "processRidePayment now tripId amount' paymentMethod' trips db =
    (case broker_call_ride_findById tripId trips of
       Inl e \<Rightarrow> (\<lparr>success = False, transactionId = None\<rparr>, db)
     | Inr None \<Rightarrow> (\<lparr>success = False, transactionId = None\<rparr>, db)
     | Inr (Some trip) \<Rightarrow>
         (case db (passengerId trip) of
            None \<Rightarrow> (\<lparr>success = False, transactionId = None\<rparr>, db)
          | Some passengerWallet \<Rightarrow>
              if paymentMethod' = ''wallet'' then
                (case debit now amount' RIDE_PAYMENT (''Payment for trip '' @ tripId)
                        (Some tripId) passengerWallet db of
                   (Inl e, _, db1) \<Rightarrow> (\<lparr>success = False, transactionId = None\<rparr>, db1)
                 | (Inr _, _, db1) \<Rightarrow>
                     (case driverId trip of
                        None \<Rightarrow> (\<lparr>success = True, transactionId = Some tripId\<rparr>, db1)
                      | Some d \<Rightarrow>
                          (case Wallet_findOne (ref_userId d) db1 of
                             None \<Rightarrow> (\<lparr>success = True, transactionId = Some tripId\<rparr>, db1)
                           | Some driverWallet \<Rightarrow>
                               (let platformFee = mul_d amount' (fl (15 / 100));
                                    driverEarning = sub_d amount' platformFee
                                in case credit now driverEarning RIDE_EARNING
                                          (''Earning from trip '' @ tripId) (Some tripId)
                                          driverWallet db1 of
                                     (Inl e, _, db2) \<Rightarrow>
                                       (\<lparr>success = False, transactionId = None\<rparr>, db2)
                                   | (Inr _, _, db2) \<Rightarrow>
                                       (\<lparr>success = True, transactionId = Some tripId\<rparr>,
                                        db2)))))
              else (\<lparr>success = False, transactionId = Some []\<rparr>, db)))"

definition refundPayment ::
  "Date \<Rightarrow> ObjectId \<Rightarrow> rat \<Rightarrow> string \<Rightarrow> ITrip list \<Rightarrow> wallets \<Rightarrow> bool \<times> wallets" where
  "refundPayment now tripId amount' reason trips db =
    (case broker_call_ride_findById tripId trips of
       Inl e \<Rightarrow> (False, db)
     | Inr None \<Rightarrow> (False, db)
     | Inr (Some trip) \<Rightarrow>
         (case db (passengerId trip) of
            None \<Rightarrow> (False, db)
          | Some passengerWallet \<Rightarrow>
              (case credit now amount' TransactionCategory.REFUND
                      (''Refund for trip '' @ tripId @ '': '' @ reason) (Some tripId)
                      passengerWallet db of
                 (Inl e, _, db1) \<Rightarrow> (False, db1)
               | (Inr _, _, db1) \<Rightarrow> (True, db1))))"

subsection \<open>Sequences of wallet operations\<close>

text \<open>
  The calls that reach the wallet collection: the actions of the payment service, the
  creation of a wallet for a new user, and a direct \<open>credit\<close> or \<open>debit\<close> on a user's
  wallet document. \<open>perform\<close> runs one of them at a date; \<open>run\<close> runs a sequence.
\<close>

datatype wallet_op =
    UserCreated ObjectId
  | GetWallet "ObjectId option"
  | TopupWallet "ObjectId option" rat string "string option"
  | WithdrawFromWallet "ObjectId option" rat bankAccount
  | TransferMoney string "ObjectId option" ObjectId rat "string option"
  | ProcessRidePayment ObjectId rat string
  | RefundPayment ObjectId rat string
  | Credit ObjectId rat TransactionCategory string "string option"
  | Debit ObjectId rat TransactionCategory string "string option"

fun perform :: "ITrip list \<Rightarrow> Date \<times> wallet_op \<Rightarrow> wallets \<Rightarrow> wallets" where
  "perform trips (now, UserCreated u) db = snd (createWalletForUser now u db)"
| "perform trips (now, GetWallet user) db = snd (getWallet now user db)"
| "perform trips (now, TopupWallet user a m tok) db = snd (topupWallet now user a m tok db)"
| "perform trips (now, WithdrawFromWallet user a b) db = snd (withdrawFromWallet now user a b db)"
| "perform trips (now, TransferMoney i user r a d) db = snd (transferMoney now i user r a d db)"
| "perform trips (now, ProcessRidePayment t a m) db = snd (processRidePayment now t a m trips db)"
| "perform trips (now, RefundPayment t a r) db = snd (refundPayment now t a r trips db)"
| "perform trips (now, Credit u a c d r) db =
     (case db u of None \<Rightarrow> db | Some w \<Rightarrow> snd (snd (credit now a c d r w db)))"
| "perform trips (now, Debit u a c d r) db =
     (case db u of None \<Rightarrow> db | Some w \<Rightarrow> snd (snd (debit now a c d r w db)))"

fun run :: "ITrip list \<Rightarrow> (Date \<times> wallet_op) list \<Rightarrow> wallets \<Rightarrow> wallets" where
  "run trips [] db = db"
| "run trips (x # xs) db = run trips xs (perform trips x db)"

text \<open>
  A log is in cents when the amount of every COMPLETED transaction in it is a whole number of
  cents. For such a log the wallet is in order when its balance equals the completed credits
  minus the completed debits. A collection is in order when every wallet stored in it is.
\<close>

definition cents_log :: "IWallet \<Rightarrow> bool" where
  "cents_log w =
    list_all (\<lambda>t. ITransaction.status t = TransactionStatus.COMPLETED \<longrightarrow>
                   is_cents (ITransaction.amount t)) (transactions w)"

definition ledger_ok :: "IWallet \<Rightarrow> bool" where
  "ledger_ok w = (cents_log w \<longrightarrow> balance w = completed_credits w - completed_debits w)"

definition db_ok :: "wallets \<Rightarrow> bool" where
  "db_ok db = (\<forall>u w. db u = Some w \<longrightarrow> ledger_ok w)"

text \<open>
  What every save leaves behind: a stored wallet sits under its own user id, it satisfies the
  validators, and its balance is a whole number of cents.
\<close>

definition stored_ok :: "wallets \<Rightarrow> bool" where
  "stored_ok db =
    (\<forall>u w. db u = Some w \<longrightarrow>
       IWallet.userId w = u \<and> Wallet_valid w \<and> is_cents (balance w))"

definition wallets_ok :: "wallets \<Rightarrow> bool" where
  "wallets_ok db = (stored_ok db \<and> db_ok db)"

section \<open>Ride service\<close>

subsection \<open>Collections and events\<close>

text \<open>
  The trip and driver collections are lists of documents, searched by the filters the code
  writes. The events emitted on the broker, and the calls issued without awaiting their result,
  are appended to a log.
\<close>

datatype event =
    ride_newRequest ObjectId ITrip
  | notification_sendPushNotification ObjectId string
  | ride_requested ITrip "ObjectId list"
  | ride_accepted ITrip IDriver
  | ride_statusUpdated ITrip TripStatus TripStatus
  | payment_processRidePayment ObjectId rat PaymentMethod

record ride_db =
  trips :: "ITrip list"
  drivers :: "IDriver list"
  events :: "event list"

definition Driver_findOne :: "ObjectId \<Rightarrow> IDriver list \<Rightarrow> IDriver option" where
  "Driver_findOne userId' ds = find (\<lambda>d. IDriver.userId d = userId') ds"

definition Driver_findById :: "ObjectId \<Rightarrow> IDriver list \<Rightarrow> IDriver option" where
  "Driver_findById i ds = find (\<lambda>d. IDriver.oid d = i) ds"

definition Driver_save :: "IDriver \<Rightarrow> IDriver list \<Rightarrow> IDriver list" where
  "Driver_save d ds = map (\<lambda>x. if IDriver.oid x = IDriver.oid d then d else x) ds"

text \<open>
  \<open>populate('driverId')\<close> replaces the reference by the driver document it names, or by
  null when there is none. Saving writes the reference back as an id.
\<close>

definition populate :: "IDriver list \<Rightarrow> ITrip \<Rightarrow> ITrip" where
  "populate ds t =
    t\<lparr>driverId :=
        (case driverId t of
           None \<Rightarrow> None
         | Some r \<Rightarrow> map_option Doc (Driver_findById (ref_id r) ds))\<rparr>"

definition depopulate :: "ITrip \<Rightarrow> ITrip" where
  "depopulate t = t\<lparr>driverId := map_option (\<lambda>r. Ref (ref_id r)) (driverId t)\<rparr>"

text \<open>
  The validators of the trip schema that a request can violate: a location has coordinates
  within \<open>[-180, 180]\<close> by \<open>[-90, 90]\<close> and a required address; distance, duration and
  the components of the fare have \<open>min: 0\<close>, the surge multiplier \<open>min: 1\<close>; the vehicle
  type is required; the free texts are at most 500 characters long.
\<close>

definition Location_valid :: "ILocation \<Rightarrow> bool" where
  "Location_valid l =
    (- 180 \<le> fst (coordinates l) \<and> fst (coordinates l) \<le> 180 \<and>
     - 90 \<le> snd (coordinates l) \<and> snd (coordinates l) \<le> 90 \<and> address l \<noteq> [])"

definition FareBreakdown_valid :: "IFareBreakdown \<Rightarrow> bool" where
  "FareBreakdown_valid fb =
    (0 \<le> baseFare fb \<and> 0 \<le> distanceFare fb \<and> 0 \<le> timeFare fb \<and> 1 \<le> surgeMultiplier fb \<and>
     0 \<le> discount fb \<and> 0 \<le> tax fb \<and> 0 \<le> tip fb \<and> 0 \<le> totalFare fb)"

definition Trip_valid :: "ITrip \<Rightarrow> bool" where
  "Trip_valid t =
    (Location_valid (ITrip.pickupLocation t) \<and> Location_valid (ITrip.dropoffLocation t) \<and>
     0 \<le> estimatedDistance t \<and> 0 \<le> estimatedDuration t \<and>
     FareBreakdown_valid (fareBreakdown t) \<and> ITrip.vehicleType t \<noteq> [] \<and>
     (case cancellationReason t of None \<Rightarrow> True | Some r \<Rightarrow> length r \<le> 500) \<and>
     (case ITrip.specialInstructions t of None \<Rightarrow> True | Some i \<Rightarrow> length i \<le> 500))"

text \<open>
  Saving a new trip: the document is validated first, and one that fails is rejected with a
  \<open>ValidationError\<close> and not stored. Then the pre-save middleware recomputes the fare
  breakdown of the new document (as it would for one whose estimated distance or duration
  was modified, which no action does), and the document is stored.

  Saving a loaded trip or driver writes the paths the action has set. The actions below set
  the status and the dates of a trip, its driver reference, and the availability and the
  counters of a driver; a loaded document satisfied the validators when it was stored and
  these paths carry no validator a value of the model can violate, so the save of a loaded
  document is modelled without a validation step. When one action runs at a time the stored
  document becomes the document in memory; so it does when calls of \<open>acceptRide\<close>
  interleave, all of which set the same paths of the trip (driver reference, status,
  acceptance time) and each of which saves its own driver.
\<close>

definition Trip_save_new :: "ITrip \<Rightarrow> ITrip list \<Rightarrow> (error + ITrip) \<times> ITrip list" where
  "Trip_save_new t ts =
    (if \<not> Trip_valid t then (Inl (ValidationError ''Trip validation failed''), ts)
     else
       (let t' = t\<lparr>fareBreakdown :=
                   trip_calculateFare (estimatedDistance t) (estimatedDuration t)
                     (fareBreakdown t)\<rparr>
        in (Inr t', ts @ [depopulate t'])))"

definition Trip_save :: "ITrip \<Rightarrow> ITrip list \<Rightarrow> ITrip list" where
  "Trip_save t ts = map (\<lambda>x. if ITrip.oid x = ITrip.oid t then depopulate t else x) ts"

subsection \<open>Document methods\<close>

fun updateStatus :: "Date \<Rightarrow> TripStatus \<Rightarrow> ITrip \<Rightarrow> ITrip" where
  "updateStatus now ACCEPTED t = t\<lparr>ITrip.status := ACCEPTED, acceptedAt := Some now\<rparr>"
| "updateStatus now DRIVER_ARRIVED t =
     t\<lparr>ITrip.status := DRIVER_ARRIVED, driverArrivedAt := Some now\<rparr>"
| "updateStatus now IN_PROGRESS t = t\<lparr>ITrip.status := IN_PROGRESS, startedAt := Some now\<rparr>"
| "updateStatus now TripStatus.COMPLETED t =
     t\<lparr>ITrip.status := TripStatus.COMPLETED, ITrip.completedAt := Some now,
       paymentStatus := PROCESSING\<rparr>"
| "updateStatus now TripStatus.CANCELLED t =
     t\<lparr>ITrip.status := TripStatus.CANCELLED, cancelledAt := Some now\<rparr>"
| "updateStatus now REQUESTED t = t\<lparr>ITrip.status := REQUESTED\<rparr>"

definition isAvailableForRide :: "IDriver \<Rightarrow> bool" where
  "isAvailableForRide d = (driverStatus d = APPROVED \<and> availability d = ONLINE)"

subsection \<open>Status updates\<close>

fun validTransitions :: "TripStatus \<Rightarrow> TripStatus list" where
  "validTransitions REQUESTED = [ACCEPTED, TripStatus.CANCELLED]"
| "validTransitions ACCEPTED = [DRIVER_ARRIVED, TripStatus.CANCELLED]"
| "validTransitions DRIVER_ARRIVED = [IN_PROGRESS, TripStatus.CANCELLED]"
| "validTransitions IN_PROGRESS = [TripStatus.COMPLETED]"
| "validTransitions TripStatus.COMPLETED = []"
| "validTransitions TripStatus.CANCELLED = []"

definition driverOnlyStatuses :: "TripStatus list" where
  "driverOnlyStatuses = [DRIVER_ARRIVED, IN_PROGRESS, TripStatus.COMPLETED]"

text \<open>
  \<open>updateTripStatus\<close>. The request schema admits every status but REQUESTED and is
  checked first. After the save, completion frees the driver, bumps the driver's counters and
  issues the settlement call without awaiting it. The status-updated event reports
  \<open>trip.status\<close> as the previous status after the document has been updated.
\<close>

definition updateTripStatus ::
  "Date \<Rightarrow> ObjectId option \<Rightarrow> ObjectId \<Rightarrow> TripStatus \<Rightarrow> ride_db \<Rightarrow> (error + ITrip) \<times> ride_db" where
  "updateTripStatus now user tripId status' db =
    (if status' = REQUESTED then (Inl (ZodError ''Invalid enum value''), db)
     else
       (case user of
          None \<Rightarrow> (Inl (Error ''User not authenticated''), db)
        | Some userId' \<Rightarrow>
            (case map_option (populate (drivers db)) (Trip_findById tripId (trips db)) of
               None \<Rightarrow> (Inl (Error ''Trip not found''), db)
             | Some trip \<Rightarrow>
                 (let isPassenger = (passengerId trip = userId');
                      isDriver = (case driverId trip of
                                    None \<Rightarrow> False
                                  | Some r \<Rightarrow> ref_userId r = Some userId')
                  in
                    if \<not> isPassenger \<and> \<not> isDriver then
                      (Inl (Error ''You are not authorized to update this trip''), db)
                    else if status' \<notin> set (validTransitions (ITrip.status trip)) then
                      (Inl (Error (''Cannot change status from '' @
                                   TripStatus_value (ITrip.status trip) @ '' to '' @
                                   TripStatus_value status')), db)
                    else if status' \<in> set driverOnlyStatuses \<and> \<not> isDriver then
                      (Inl (Error ''Only the assigned driver can update to this status''), db)
                    else
                      (let trip1 = updateStatus now status' trip;
                           db1 = db\<lparr>trips := Trip_save trip1 (trips db)\<rparr>;
                           db2 =
                             (if status' = TripStatus.COMPLETED then
                                (let db1a =
                                       (case driverId trip1 of
                                          None \<Rightarrow> db1
                                        | Some r \<Rightarrow>
                                            (case Driver_findById (ref_id r) (drivers db1) of
                                               None \<Rightarrow> db1
                                             | Some driver \<Rightarrow>
                                                 db1\<lparr>drivers :=
                                                   Driver_save
                                                     (driver\<lparr>availability := ONLINE,
                                                        totalTrips := totalTrips driver + 1,
                                                        totalEarnings :=
                                                          totalEarnings driver +
                                                          totalFare (fareBreakdown trip1)\<rparr>)
                                                     (drivers db1)\<rparr>))
                                 in db1a\<lparr>events := events db1a @
                                      [payment_processRidePayment (ITrip.oid trip1)
                                         (totalFare (fareBreakdown trip1))
                                         (ITrip.paymentMethod trip1)]\<rparr>)
                              else db1)
                       in (Inr trip1,
                           db2\<lparr>events := events db2 @
                             [ride_statusUpdated trip1 (ITrip.status trip1) status']\<rparr>))))))"

subsection \<open>Acceptance\<close>

definition activeForDriver :: "TripStatus list" where
  "activeForDriver = [ACCEPTED, DRIVER_ARRIVED, IN_PROGRESS]"

definition Trip_findActiveOfDriver :: "ObjectId \<Rightarrow> ITrip list \<Rightarrow> ITrip option" where
  "Trip_findActiveOfDriver d ts =
    find (\<lambda>t. map_option ref_id (driverId t) = Some d \<and> ITrip.status t \<in> set activeForDriver) ts"

definition acceptRide ::
  "Date \<Rightarrow> ObjectId option \<Rightarrow> UserRole option \<Rightarrow> ObjectId \<Rightarrow> ride_db
    \<Rightarrow> (error + ITrip) \<times> ride_db" where
  "acceptRide now user userRole tripId db =
    (case (if userRole \<noteq> Some DRIVER then None else user) of
       None \<Rightarrow> (Inl (Error ''Only drivers can accept rides''), db)
     | Some userId' \<Rightarrow>
       (case Driver_findOne userId' (drivers db) of
          None \<Rightarrow> (Inl (Error ''Driver profile not found''), db)
        | Some driver \<Rightarrow>
            if \<not> isAvailableForRide driver then
              (Inl (Error ''Driver is not available for rides''), db)
            else
              (case Trip_findActiveOfDriver (IDriver.oid driver) (trips db) of
                 Some activeTrip \<Rightarrow> (Inl (Error ''You already have an active trip''), db)
               | None \<Rightarrow>
                   (case Trip_findById tripId (trips db) of
                      None \<Rightarrow> (Inl (Error ''Trip not found''), db)
                    | Some trip \<Rightarrow>
                        if ITrip.status trip \<noteq> REQUESTED then
                          (Inl (Error ''Trip is no longer available''), db)
                        else
                          (let trip1 = updateStatus now ACCEPTED
                                         (trip\<lparr>driverId := Some (Ref (IDriver.oid driver))\<rparr>);
                               db1 = db\<lparr>trips := Trip_save trip1 (trips db)\<rparr>;
                               driver1 = driver\<lparr>availability := BUSY\<rparr>;
                               db2 = db1\<lparr>drivers := Driver_save driver1 (drivers db1)\<rparr>
                           in (Inr trip1,
                               db2\<lparr>events := events db2 @
                                 [ride_accepted trip1 driver1]\<rparr>))))))"

text \<open>
  The same action cut at its \<open>await\<close>s. Between two awaits the code runs without
  interruption; at an await another call may run. A step performs the awaited database
  operation and the code up to the next await: finding the driver, looking for an active trip
  of the driver, loading the trip (and mutating the document in memory), saving the trip,
  saving the driver.
\<close>

datatype accept_pc =
    At_start
  | At_findActive IDriver
  | At_findTrip IDriver
  | At_saveTrip IDriver ITrip
  | At_saveDriver IDriver ITrip
  | Done "error + ITrip"

fun accept_step ::
  "Date \<Rightarrow> ObjectId option \<Rightarrow> UserRole option \<Rightarrow> ObjectId \<Rightarrow> accept_pc \<Rightarrow> ride_db
    \<Rightarrow> accept_pc \<times> ride_db" where
  "accept_step now user userRole tripId At_start db =
    (case (if userRole \<noteq> Some DRIVER then None else user) of
       None \<Rightarrow> (Done (Inl (Error ''Only drivers can accept rides'')), db)
     | Some userId' \<Rightarrow>
         (case Driver_findOne userId' (drivers db) of
            None \<Rightarrow> (Done (Inl (Error ''Driver profile not found'')), db)
          | Some driver \<Rightarrow>
              if \<not> isAvailableForRide driver then
                (Done (Inl (Error ''Driver is not available for rides'')), db)
              else (At_findActive driver, db)))"
| "accept_step now user userRole tripId (At_findActive driver) db =
    (case Trip_findActiveOfDriver (IDriver.oid driver) (trips db) of
       Some activeTrip \<Rightarrow> (Done (Inl (Error ''You already have an active trip'')), db)
     | None \<Rightarrow> (At_findTrip driver, db))"
| "accept_step now user userRole tripId (At_findTrip driver) db =
    (case Trip_findById tripId (trips db) of
       None \<Rightarrow> (Done (Inl (Error ''Trip not found'')), db)
     | Some trip \<Rightarrow>
         if ITrip.status trip \<noteq> REQUESTED then
           (Done (Inl (Error ''Trip is no longer available'')), db)
         else
           (At_saveTrip driver
              (updateStatus now ACCEPTED (trip\<lparr>driverId := Some (Ref (IDriver.oid driver))\<rparr>)),
            db))"
| "accept_step now user userRole tripId (At_saveTrip driver trip1) db =
    (At_saveDriver (driver\<lparr>availability := BUSY\<rparr>) trip1,
     db\<lparr>trips := Trip_save trip1 (trips db)\<rparr>)"
| "accept_step now user userRole tripId (At_saveDriver driver1 trip1) db =
    (let db2 = db\<lparr>drivers := Driver_save driver1 (drivers db)\<rparr>
     in (Done (Inr trip1), db2\<lparr>events := events db2 @ [ride_accepted trip1 driver1]\<rparr>))"
| "accept_step now user userRole tripId (Done r) db = (Done r, db)"

text \<open>
  Concurrent calls of \<open>acceptRide\<close> on one trip: each caller has its own position, and a
  schedule names, step by step, the caller that runs next.
\<close>

fun accept_run ::
  "Date \<Rightarrow> ObjectId \<Rightarrow> nat list \<Rightarrow> (ObjectId \<times> accept_pc) list \<times> ride_db
    \<Rightarrow> (ObjectId \<times> accept_pc) list \<times> ride_db" where
  "accept_run now tripId [] (ps, db) = (ps, db)"
| "accept_run now tripId (i # sched) (ps, db) =
    (if i < length ps then
       (let (u, pc) = ps ! i;
            (pc', db') = accept_step now (Some u) (Some DRIVER) tripId pc db
        in accept_run now tripId sched (ps[i := (u, pc')], db'))
     else accept_run now tripId sched (ps, db))"

text \<open>The calls made one after another, each running to its end before the next begins.\<close>

fun accept_in_turn ::
  "Date \<Rightarrow> ObjectId \<Rightarrow> ObjectId list \<Rightarrow> ride_db \<Rightarrow> (error + ITrip) list \<times> ride_db" where
  "accept_in_turn now tripId [] db = ([], db)"
| "accept_in_turn now tripId (u # us) db =
    (let (r, db1) = acceptRide now (Some u) (Some DRIVER) tripId db;
         (rs, db2) = accept_in_turn now tripId us db1
     in (r # rs, db2))"

subsection \<open>Requesting a ride\<close>

record RequestRide =
  pickupLocation :: ILocation
  dropoffLocation :: ILocation
  vehicleType :: string
  paymentMethod :: PaymentMethod
  specialInstructions :: "string option"

text \<open>
  \<open>findNearbyDrivers\<close> is a geospatial query: approved, online drivers of the requested
  vehicle type whose current location lies within 5000 metres of the point, nearest first, at
  most ten. The distance of two points on the sphere is computed by the database; it is the
  parameter \<open>geoDistance\<close>, on \<open>[longitude, latitude]\<close> pairs, in metres.
\<close>

definition findNearbyDrivers ::
  "(rat \<times> rat \<Rightarrow> rat \<times> rat \<Rightarrow> rat) \<Rightarrow> rat \<Rightarrow> rat \<Rightarrow> string \<Rightarrow> IDriver list \<Rightarrow> IDriver list" where
  "findNearbyDrivers geoDistance lat lng vehicleType' ds =
    take 10
      (sort_key (\<lambda>d. case currentLocation d of
                         None \<Rightarrow> 0
                       | Some p \<Rightarrow> geoDistance (lng, lat) p)
         (filter (\<lambda>d. driverStatus d = APPROVED \<and> availability d = ONLINE \<and>
                       vehicle_type d = vehicleType' \<and>
                       (case currentLocation d of
                          None \<Rightarrow> False
                        | Some p \<Rightarrow> geoDistance (lng, lat) p \<le> 5000)) ds))"

fun notifyDrivers :: "IDriver list \<Rightarrow> ITrip \<Rightarrow> event list" where
  "notifyDrivers [] trip = []"
| "notifyDrivers (driver # ds) trip =
    [ride_newRequest (IDriver.oid driver) trip,
     notification_sendPushNotification (IDriver.userId driver)
       (''New ride request from '' @ address (ITrip.pickupLocation trip))]
    @ notifyDrivers ds trip"

definition activeForPassenger :: "TripStatus list" where
  "activeForPassenger = [REQUESTED, ACCEPTED, DRIVER_ARRIVED, IN_PROGRESS]"

text \<open>
  \<open>requestRide\<close>. \<open>calculateDistance\<close> is the haversine formula, built from sines and
  cosines; it is the parameter \<open>haversine\<close>, from two latitude and longitude pairs to
  kilometres. \<open>newId\<close> is the id generated for the new trip document. The request is parsed
  inside the \<open>try\<close>, so a schema failure, like the rejection of the save, is thrown again
  as a plain error with the same message.
\<close>

definition requestRide ::
  "(rat \<Rightarrow> rat \<Rightarrow> rat \<Rightarrow> rat \<Rightarrow> rat) \<Rightarrow> (rat \<times> rat \<Rightarrow> rat \<times> rat \<Rightarrow> rat) \<Rightarrow> Date \<Rightarrow> ObjectId
    \<Rightarrow> ObjectId option \<Rightarrow> UserRole option \<Rightarrow> RequestRide \<Rightarrow> ride_db
    \<Rightarrow> (error + ITrip) \<times> ride_db" where
  "requestRide haversine geoDistance now newId user userRole rideData db =
    (case (if userRole \<noteq> Some PASSENGER then None else user) of
       None \<Rightarrow> (Inl (Error ''Only passengers can request rides''), db)
     | Some userId' \<Rightarrow>
         if address (RequestRide.pickupLocation rideData) = [] then
           (Inl (Error ''Pickup address is required''), db)
         else if address (RequestRide.dropoffLocation rideData) = [] then
           (Inl (Error ''Dropoff address is required''), db)
         else if RequestRide.vehicleType rideData = [] then
           (Inl (Error ''Vehicle type is required''), db)
         else if (case RequestRide.specialInstructions rideData of
                    None \<Rightarrow> False | Some i \<Rightarrow> 500 < length i) then
           (Inl (Error ''String must contain at most 500 character(s)''), db)
         else
           (case find (\<lambda>t. passengerId t = userId' \<and>
                            ITrip.status t \<in> set activeForPassenger) (trips db) of
              Some activeTrip \<Rightarrow> (Inl (Error ''You already have an active trip''), db)
            | None \<Rightarrow>
                (let pickup = coordinates (RequestRide.pickupLocation rideData);
                     dropoff = coordinates (RequestRide.dropoffLocation rideData);
                     distance = haversine (snd pickup) (fst pickup) (snd dropoff) (fst dropoff);
                     estimatedDuration' = max (mul_d distance 2) 5;
                     fareBreakdown' = calculateFare distance estimatedDuration' None
                 in
                   (case Trip_save_new
                           \<lparr> ITrip.oid = newId, passengerId = userId', driverId = None,
                             ITrip.status = REQUESTED,
                             ITrip.pickupLocation = RequestRide.pickupLocation rideData,
                             ITrip.dropoffLocation = RequestRide.dropoffLocation rideData,
                             estimatedDistance = distance,
                             estimatedDuration = estimatedDuration',
                             fareBreakdown = fareBreakdown',
                             ITrip.paymentMethod = RequestRide.paymentMethod rideData,
                             paymentStatus = PaymentStatus.PENDING,
                             requestedAt = now, acceptedAt = None, driverArrivedAt = None,
                             startedAt = None, ITrip.completedAt = None, cancelledAt = None,
                             cancellationReason = None, cancelledBy = None,
                             ITrip.specialInstructions =
                               RequestRide.specialInstructions rideData,
                             ITrip.vehicleType = RequestRide.vehicleType rideData \<rparr>
                           (trips db) of
                      (Inl e, trips1) \<Rightarrow> (Inl (Error (message e)), db\<lparr>trips := trips1\<rparr>)
                    | (Inr trip, trips1) \<Rightarrow>
                        (let db1 = db\<lparr>trips := trips1\<rparr>;
                             nearbyDrivers =
                               findNearbyDrivers geoDistance (snd pickup) (fst pickup)
                                 (RequestRide.vehicleType rideData) (drivers db1)
                         in
                           if length nearbyDrivers = 0 then
                             (Inl (Error ''No drivers available in your area''), db1)
                           else
                             (Inr trip,
                              db1\<lparr>events := events db1 @ notifyDrivers nearbyDrivers trip @
                                [ride_requested trip (map IDriver.oid nearbyDrivers)]\<rparr>))))))"


section \<open>Example data\<close>

text \<open>Concrete inputs at which the theorems below are evaluated.\<close>

definition today :: Date where
  "today = \<lparr> getFullYear = 2024, getMonth = 0, getDate = 15 \<rparr>"

definition wallet_of :: "ObjectId \<Rightarrow> rat \<Rightarrow> bool \<Rightarrow> rat \<Rightarrow> IWallet" where
  "wallet_of u b act spent =
     \<lparr> IWallet.userId = u, balance = b, currency = ''USD'', isActive = act,
       transactions = [], dailyLimit = 500, monthlyLimit = 5000, dailySpent = spent,
       monthlySpent = spent, lastResetDate = today \<rparr>"

definition overdraw :: Partial_ITransaction where
  "overdraw =
     \<lparr> Partial_ITransaction.type = DEBIT, Partial_ITransaction.amount = 10,
       Partial_ITransaction.category = PENALTY,
       Partial_ITransaction.status = Some TransactionStatus.COMPLETED,
       Partial_ITransaction.description = ''penalty'',
       Partial_ITransaction.referenceId = None,
       Partial_ITransaction.paymentMethod = None \<rparr>"

definition acct :: bankAccount where
  "acct = \<lparr> accountNumber = ''000123456789'', routingNumber = ''110000000'',
            accountHolderName = ''P One'' \<rparr>"

definition topup_ops :: "rat \<Rightarrow> (Date \<times> wallet_op) list" where
  "topup_ops a =
     [(today, UserCreated ''p1''),
      (today, TopupWallet (Some ''p1'') a ''stripe'' (Some ''tok_1''))]"

definition place :: "string \<Rightarrow> ILocation" where
  "place a = \<lparr> coordinates = (0, 0), address = a, placeId = None \<rparr>"

definition trip_of :: "ObjectId \<Rightarrow> ObjectId \<Rightarrow> driver_ref option \<Rightarrow> TripStatus \<Rightarrow> ITrip" where
  "trip_of i p d s =
     \<lparr> ITrip.oid = i, passengerId = p, driverId = d, ITrip.status = s,
       ITrip.pickupLocation = place ''1 Main St'', ITrip.dropoffLocation = place ''9 High St'',
       estimatedDistance = 10, estimatedDuration = 20,
       fareBreakdown = calculateFare 10 20 None,
       ITrip.paymentMethod = WALLET, paymentStatus = PaymentStatus.PENDING,
       requestedAt = today, acceptedAt = None, driverArrivedAt = None, startedAt = None,
       ITrip.completedAt = None, cancelledAt = None, cancellationReason = None,
       cancelledBy = None, ITrip.specialInstructions = None, ITrip.vehicleType = ''sedan'' \<rparr>"

definition driver_of :: "ObjectId \<Rightarrow> ObjectId \<Rightarrow> IDriver" where
  "driver_of i u =
     \<lparr> IDriver.oid = i, IDriver.userId = u, driverStatus = APPROVED, availability = ONLINE,
       vehicle_type = ''sedan'', currentLocation = Some (0, 0), totalTrips = 0,
       totalEarnings = 0 \<rparr>"

definition rides :: "ITrip list \<Rightarrow> IDriver list \<Rightarrow> ride_db" where
  "rides ts ds = \<lparr> trips = ts, drivers = ds, events = [] \<rparr>"

definition request_sedan :: RequestRide where
  "request_sedan =
     \<lparr> RequestRide.pickupLocation = place ''1 Main St'',
       RequestRide.dropoffLocation = place ''9 High St'',
       RequestRide.vehicleType = ''sedan'', RequestRide.paymentMethod = WALLET,
       RequestRide.specialInstructions = None \<rparr>"



definition requested_db :: ride_db where
  "requested_db =
     rides [trip_of ''t1'' ''p1'' None REQUESTED]
       [driver_of ''d1'' ''u1'', driver_of ''d2'' ''u2'']"

definition unbound_db :: ride_db where
  "unbound_db = rides [trip_of ''t1'' ''p1'' None REQUESTED] [driver_of ''d1'' ''u1'']"

definition bound_to :: "ObjectId \<Rightarrow> ITrip" where
  "bound_to d = (trip_of ''t1'' ''p1'' (Some (Ref d)) ACCEPTED)\<lparr>acceptedAt := Some today\<rparr>"


definition offline_db :: ride_db where
  "offline_db = rides [] [(driver_of ''d1'' ''u1'')\<lparr>availability := OFFLINE\<rparr>]"

definition ten_km :: "rat \<Rightarrow> rat \<Rightarrow> rat \<Rightarrow> rat \<Rightarrow> rat" where
  "ten_km lat1 lon1 lat2 lon2 = 10"

definition same_spot :: "rat \<times> rat \<Rightarrow> rat \<times> rat \<Rightarrow> rat" where
  "same_spot p q = 0"

section \<open>Rounding\<close>

lemma floor_rat_numeral [simp]:
  "\<lfloor>numeral a / numeral b :: rat\<rfloor> = numeral a div numeral b"
  by (metis floor_divide_of_int_eq of_int_numeral)

lemma round2_bounds: "v - 1 / 200 < round2 v \<and> round2 v \<le> v + 1 / 200"
proof -
  let ?n = "\<lfloor>v * 100 + 1 / 2\<rfloor>"
  have lo: "of_int ?n \<le> v * 100 + 1 / 2"
    by (rule of_int_floor_le)
  have hi: "v * 100 + 1 / 2 < of_int ?n + 1"
    using floor_correct [of "v * 100 + 1 / 2"] by simp
  show ?thesis
    unfolding round2_def Math_round_def using lo hi by (simp add: field_simps)
qed

lemma round2_cents: "is_cents (round2 v)"
  unfolding round2_def Math_round_def is_cents_def by simp

lemma round2_id:
  assumes "is_cents v"
  shows "round2 v = v"
proof -
  from assms have e: "v * 100 = of_int \<lfloor>v * 100\<rfloor>"
    unfolding is_cents_def by (rule sym)
  have "\<lfloor>of_int \<lfloor>v * 100\<rfloor> + (1::rat) / 2\<rfloor> = \<lfloor>v * 100\<rfloor>"
    by (simp add: floor_unique)
  with e have "\<lfloor>v * 100 + 1 / 2\<rfloor> = \<lfloor>v * 100\<rfloor>"
    by simp
  with e show ?thesis
    unfolding round2_def Math_round_def by simp
qed

lemma round2_nonneg: "0 \<le> v \<Longrightarrow> 0 \<le> round2 v"
  unfolding round2_def Math_round_def by simp

lemma is_cents_0: "is_cents 0"
  by (simp add: is_cents_def)

lemma is_cents_add: "is_cents a \<Longrightarrow> is_cents b \<Longrightarrow> is_cents (a + b)"
  unfolding is_cents_def
  by (metis (no_types) distrib_right floor_add_int of_int_add)

lemma is_cents_diff: "is_cents a \<Longrightarrow> is_cents b \<Longrightarrow> is_cents (a - b)"
  unfolding is_cents_def
  by (metis (no_types) left_diff_distrib floor_diff_of_int of_int_diff)

lemma is_cents_sum_list:
  "list_all (\<lambda>t. is_cents (f t)) ts \<Longrightarrow> is_cents (sum_list (map f ts))"
  by (induction ts) (auto simp: is_cents_0 is_cents_add)

section \<open>Double arithmetic\<close>

lemma pow2_pos [simp]: "0 < pow2 e"
  by (simp add: pow2_def)

lemma round_half_even_nonneg: "0 \<le> x \<Longrightarrow> 0 \<le> round_half_even x"
  by (auto simp: round_half_even_def Let_def)

lemma fl_nonneg: "0 \<le> x \<Longrightarrow> 0 \<le> fl x"
  by (auto simp: fl_def Let_def less_imp_le intro!: mult_nonneg_nonneg round_half_even_nonneg)

lemma pow2_eq_powi: "pow2 e = 2 powi e"
  by (simp add: pow2_def power_int_def field_simps)

lemma pow2_add: "pow2 (a + b) = pow2 a * pow2 b"
  by (simp add: pow2_eq_powi power_int_add)

lemma pow2_nat: "pow2 (int n) = 2 ^ n"
  by (simp add: pow2_def)

lemma qo: "0 < y \<Longrightarrow> quotient_of y = (p, q) \<Longrightarrow> 0 < p \<and> 0 < q \<and> y = of_int p / of_int q"
  by (metis quotient_of_denom_pos quotient_of_div zero_less_divide_iff of_int_0_less_iff of_int_pos not_less_iff_gr_or_eq)

lemma pow2_mono: "a \<le> b \<Longrightarrow> pow2 a \<le> pow2 b"
  by (simp add: pow2_eq_powi power_int_increasing)

lemma bitlen_pow2_bounds:
  assumes "0 < n"
  shows "pow2 (bitlen n - 1) \<le> of_int n" and "of_int n < pow2 (bitlen n)"
proof -
  have b: "1 \<le> bitlen n"
    using assms bitlen_eq_zero_iff [of n] bitlen_nonneg [of n] by linarith
  from bitlen_bounds [OF assms]
  have "(2::int) ^ nat (bitlen n - 1) \<le> n" and "n < 2 ^ nat (bitlen n)"
    by simp_all
  then have "of_int ((2::int) ^ nat (bitlen n - 1)) \<le> (of_int n :: rat)"
    and "(of_int n :: rat) < of_int (2 ^ nat (bitlen n))"
    by (simp_all only: of_int_le_iff of_int_less_iff)
  then show "pow2 (bitlen n - 1) \<le> of_int n" and "of_int n < pow2 (bitlen n)"
    using b by (simp_all add: pow2_def)
qed

lemma ilog2_bounds:
  assumes "0 < y"
  shows "pow2 (ilog2 y) \<le> y \<and> y < pow2 (ilog2 y + 1)"
proof -
  obtain p q where pq: "quotient_of y = (p, q)" by (cases "quotient_of y")
  from qo [OF assms pq] have p: "0 < p" and q: "0 < q" and y: "y = of_int p / of_int q"
    by simp_all
  let ?bp = "bitlen p" and ?bq = "bitlen q"
  note p1 = bitlen_pow2_bounds(1) [OF p] and p2 = bitlen_pow2_bounds(2) [OF p]
  note q1 = bitlen_pow2_bounds(1) [OF q] and q2 = bitlen_pow2_bounds(2) [OF q]
  have qpos: "0 < (of_int q :: rat)" using q by simp
  have up: "y < pow2 (?bp - ?bq + 1)"
  proof -
    have "of_int p < pow2 (?bp - ?bq + 1) * pow2 (?bq - 1)"
      using p2 by (simp add: pow2_add [symmetric])
    also have "\<dots> \<le> pow2 (?bp - ?bq + 1) * of_int q"
      using q1 by (simp add: less_imp_le)
    finally show ?thesis unfolding y using qpos by (simp add: pos_divide_less_eq)
  qed
  have lo: "pow2 (?bp - ?bq - 1) \<le> y"
  proof -
    have "pow2 (?bp - ?bq - 1) * of_int q \<le> pow2 (?bp - ?bq - 1) * pow2 ?bq"
      using q2 by (simp add: less_imp_le)
    also have "\<dots> = pow2 (?bp - 1)" by (simp add: pow2_add [symmetric])
    also have "\<dots> \<le> of_int p" by (rule p1)
    finally show ?thesis unfolding y using qpos by (simp add: pos_le_divide_eq)
  qed
  show ?thesis
    using up lo pq by (auto simp: ilog2_def Let_def not_le)
qed

section \<open>The fare formula\<close>

lemma trip_calculateFare_fields:
  "baseFare (trip_calculateFare d t fb) = 250 / 100"
  "distanceFare (trip_calculateFare d t fb) = mul_d d (fl (120 / 100))"
  "timeFare (trip_calculateFare d t fb) = mul_d t (25 / 100)"
  "surgeMultiplier (trip_calculateFare d t fb) = surgeMultiplier fb"
  "discount (trip_calculateFare d t fb) = discount fb"
  "tip (trip_calculateFare d t fb) = tip fb"
  by (simp_all add: trip_calculateFare_def Let_def)

lemma calculateFare_fields:
  "baseFare (calculateFare d t v) = 250 / 100"
  "distanceFare (calculateFare d t v) =
     mul_d d (if v = Some ''luxury'' then 2 else fl (120 / 100))"
  "timeFare (calculateFare d t v) = mul_d t (25 / 100)"
  "surgeMultiplier (calculateFare d t v) = 1"
  "discount (calculateFare d t v) = 0"
  "tip (calculateFare d t v) = 0"
  by (simp_all add: calculateFare_def Let_def)

lemma trip_subtotal:
  "subtotal (trip_calculateFare d t fb) =
     mul_d (add_d (add_d (250 / 100) (mul_d d (fl (120 / 100)))) (mul_d t (25 / 100)))
       (surgeMultiplier fb)"
  by (simp add: subtotal_def trip_calculateFare_fields)

lemma trip_tax:
  "tax (trip_calculateFare d t fb) =
     mul_d (sub_d (subtotal (trip_calculateFare d t fb)) (discount fb)) (fl (8 / 100))"
  unfolding trip_subtotal by (simp add: trip_calculateFare_def Let_def)

lemma trip_total:
  "totalFare (trip_calculateFare d t fb) =
     round2_d (add_d (add_d (sub_d (subtotal (trip_calculateFare d t fb)) (discount fb))
                        (tax (trip_calculateFare d t fb))) (tip fb))"
  unfolding trip_tax trip_subtotal by (simp add: trip_calculateFare_def Let_def)

lemma ride_subtotal:
  "subtotal (calculateFare d t v) =
     mul_d (add_d (add_d (250 / 100)
                     (mul_d d (if v = Some ''luxury'' then 2 else fl (120 / 100))))
              (mul_d t (25 / 100))) 1"
  by (simp add: subtotal_def calculateFare_fields)

lemma ride_tax:
  "tax (calculateFare d t v) = mul_d (subtotal (calculateFare d t v)) (fl (8 / 100))"
  unfolding ride_subtotal by (simp add: calculateFare_def Let_def)

lemma ride_total:
  "totalFare (calculateFare d t v) =
     round2_d (add_d (subtotal (calculateFare d t v)) (tax (calculateFare d t v)))"
  unfolding ride_tax ride_subtotal by (simp add: calculateFare_def Let_def)

lemma round2_d_cents: "round2_d x = fl (of_int (Math_round (mul_d x 100)) / 100)"
  by (simp add: round2_d_def div_d_def)

lemma trip_calculateFare_reads:
  "trip_calculateFare d t fb =
     trip_calculateFare d t
       \<lparr> baseFare = 0, distanceFare = 0, timeFare = 0, surgeMultiplier = surgeMultiplier fb,
         discount = discount fb, tax = 0, tip = tip fb, totalFare = 0 \<rparr>"
  by (simp add: trip_calculateFare_def)

lemma trip_scenario:
  "subtotal (trip_calculateFare 10 20 (fb\<lparr>surgeMultiplier := 1, discount := 0, tip := 0\<rparr>))
     = 1950 / 100"
  "tax (trip_calculateFare 10 20 (fb\<lparr>surgeMultiplier := 1, discount := 0, tip := 0\<rparr>))
     = fl (156 / 100)"
  "totalFare (trip_calculateFare 10 20 (fb\<lparr>surgeMultiplier := 1, discount := 0, tip := 0\<rparr>))
     = fl (2106 / 100)"
proof -
  let ?fb = "\<lparr> baseFare = 0, distanceFare = 0, timeFare = 0, surgeMultiplier = 1,
         discount = 0, tax = 0, tip = 0, totalFare = 0 \<rparr>"
  have e: "trip_calculateFare 10 20 (fb\<lparr>surgeMultiplier := 1, discount := 0, tip := 0\<rparr>) =
     trip_calculateFare 10 20 ?fb"
    by (subst trip_calculateFare_reads) simp
  have "subtotal (trip_calculateFare 10 20 ?fb) = 1950 / 100"
    by code_simp
  moreover have "tax (trip_calculateFare 10 20 ?fb) = fl (156 / 100)"
    by code_simp
  moreover have "totalFare (trip_calculateFare 10 20 ?fb) = fl (2106 / 100)"
    by code_simp
  ultimately show
    "subtotal (trip_calculateFare 10 20 (fb\<lparr>surgeMultiplier := 1, discount := 0, tip := 0\<rparr>))
      = 1950 / 100"
    "tax (trip_calculateFare 10 20 (fb\<lparr>surgeMultiplier := 1, discount := 0, tip := 0\<rparr>))
      = fl (156 / 100)"
    "totalFare (trip_calculateFare 10 20 (fb\<lparr>surgeMultiplier := 1, discount := 0, tip := 0\<rparr>))
      = fl (2106 / 100)"
    unfolding e by simp_all
qed

lemma ride_scenario:
  "subtotal (calculateFare 10 20 None) = 1950 / 100"
  "tax (calculateFare 10 20 None) = fl (156 / 100)"
  "totalFare (calculateFare 10 20 None) = fl (2106 / 100)"
  by code_simp+

subsection \<open>The fare claim\<close>

text \<open>
  Claim C5 as stated fails in its rounding: the total is not the exact total rounded half up
  to cents. For no distance and five and a half minutes the exact total is 4.185, which
  rounds half up to 4.19; both fare functions compute in doubles, where a hundred times the
  total falls just below 418.5, and return 4.18.
\<close>

theorem fare_half_up_counterexample:
  "totalFare (calculateFare 0 (11 / 2) None) = fl (418 / 100) \<and>
   totalFare (trip_calculateFare 0 (11 / 2)
      \<lparr> baseFare = 0, distanceFare = 0, timeFare = 0, surgeMultiplier = 1, discount = 0,
        tax = 0, tip = 0, totalFare = 0 \<rparr>) = fl (418 / 100) \<and>
   exact_total (120 / 100) 0 (11 / 2) 1 0 0 = 419 / 100 \<and>
   fl (418 / 100) < 419 / 100 - 1 / 200"
  by code_simp

text \<open>
  Claim C5, amended. For doubles between 0 and a million as distance, duration, surge
  multiplier, discount and tip, both fare functions compute the formula of the claim in
  double arithmetic, every operation rounded to the nearest double, with the doubles nearest
  1.20 (2 for the luxury class in the service's function, whose surge is 1 and whose discount
  and tip are 0) and 0.08 as rates: subtotal = (2.50 + distance * perKmRate + duration * 0.25)
  * surge, tax = (subtotal - discount) * taxRate, total = subtotal - discount + tax + tip.
  The total returned is \<open>Math.round\<close> of a hundred times that total, divided by 100: the
  double nearest a whole number of cents. For 10 km and 20 minutes at surge 1 without
  discount or tip the subtotal is 19.50, the tax the double nearest 1.56 and the total the
  double nearest 21.06.
\<close>

theorem fare_formula_in_doubles:
  assumes "fare_input d" and "fare_input t" and "fare_input (surgeMultiplier fb)"
    and "fare_input (discount fb)" and "fare_input (tip fb)"
  shows
  "subtotal (trip_calculateFare d t fb) =
     mul_d (add_d (add_d (250 / 100) (mul_d d (fl (120 / 100)))) (mul_d t (25 / 100)))
       (surgeMultiplier fb) \<and>
   tax (trip_calculateFare d t fb) =
     mul_d (sub_d (subtotal (trip_calculateFare d t fb)) (discount fb)) (fl (8 / 100)) \<and>
   totalFare (trip_calculateFare d t fb) =
     round2_d (add_d (add_d (sub_d (subtotal (trip_calculateFare d t fb)) (discount fb))
                        (tax (trip_calculateFare d t fb))) (tip fb)) \<and>
   subtotal (calculateFare d t v) =
     mul_d (add_d (add_d (250 / 100)
                     (mul_d d (if v = Some ''luxury'' then 2 else fl (120 / 100))))
              (mul_d t (25 / 100))) 1 \<and>
   tax (calculateFare d t v) = mul_d (subtotal (calculateFare d t v)) (fl (8 / 100)) \<and>
   totalFare (calculateFare d t v) =
     round2_d (add_d (subtotal (calculateFare d t v)) (tax (calculateFare d t v))) \<and>
   round2_d x = fl (of_int (Math_round (mul_d x 100)) / 100) \<and>
   subtotal (trip_calculateFare 10 20 (fb\<lparr>surgeMultiplier := 1, discount := 0, tip := 0\<rparr>))
     = 1950 / 100 \<and>
   tax (trip_calculateFare 10 20 (fb\<lparr>surgeMultiplier := 1, discount := 0, tip := 0\<rparr>))
     = fl (156 / 100) \<and>
   totalFare (trip_calculateFare 10 20 (fb\<lparr>surgeMultiplier := 1, discount := 0, tip := 0\<rparr>))
     = fl (2106 / 100) \<and>
   subtotal (calculateFare 10 20 None) = 1950 / 100 \<and>
   tax (calculateFare 10 20 None) = fl (156 / 100) \<and>
   totalFare (calculateFare 10 20 None) = fl (2106 / 100)"
  using trip_subtotal [of d t fb] trip_tax [of d t fb] trip_total [of d t fb]
    ride_subtotal [of d t v] ride_tax [of d t v] ride_total [of d t v] round2_d_cents [of x]
    trip_scenario [of fb] ride_scenario
  by blast

theorem fare_formula_in_doubles_witness:
  "fare_input 10 \<and> fare_input 20 \<and> fare_input 1 \<and> fare_input 0 \<and>
   subtotal (calculateFare 10 20 None) = 1950 / 100 \<and>
   tax (calculateFare 10 20 None) = fl (156 / 100) \<and>
   totalFare (calculateFare 10 20 None) = fl (2106 / 100) \<and>
   totalFare (calculateFare 10 20 None) =
     round2_d (add_d (subtotal (calculateFare 10 20 None)) (tax (calculateFare 10 20 None))) \<and>
   \<bar>fl (156 / 100) - 156 / 100\<bar> < 1 / 10 ^ 15 \<and>
   \<bar>fl (2106 / 100) - 2106 / 100\<bar> < 1 / 10 ^ 14"
proof -
  have i: "fare_input 10" "fare_input 20" "fare_input 1" "fare_input 0"
    by code_simp+
  have c: "\<bar>fl (156 / 100) - 156 / 100\<bar> < 1 / 10 ^ 15"
     "\<bar>fl (2106 / 100) - 2106 / 100\<bar> < 1 / 10 ^ 14"
    by code_simp+
  let ?fb = "\<lparr> baseFare = 0, distanceFare = 0, timeFare = 0, surgeMultiplier = 1,
         discount = 0, tax = 0, tip = 0, totalFare = 0 \<rparr>"
  have s: "fare_input (surgeMultiplier ?fb)" "fare_input (discount ?fb)" "fare_input (tip ?fb)"
    using i by simp_all
  from fare_formula_in_doubles [OF i(1,2) s, of None] i c
  show ?thesis
    by blast
qed

section \<open>The wallet collection\<close>

lemma pre_save_frame:
  "transactions (pre_save w) = transactions w" "dailySpent (pre_save w) = dailySpent w"
  "monthlySpent (pre_save w) = monthlySpent w" "IWallet.userId (pre_save w) = IWallet.userId w"
  "isActive (pre_save w) = isActive w" "dailyLimit (pre_save w) = dailyLimit w"
  "monthlyLimit (pre_save w) = monthlyLimit w" "lastResetDate (pre_save w) = lastResetDate w"
  by (simp_all add: pre_save_def Let_def)

lemma pre_save_balance: "0 \<le> balance (pre_save w) \<and> is_cents (balance (pre_save w))"
  by (auto simp: pre_save_def Let_def round2_cents round2_nonneg)

lemma pre_save_id: "0 \<le> balance w \<Longrightarrow> is_cents (balance w) \<Longrightarrow> pre_save w = w"
  by (simp add: pre_save_def Let_def round2_id)

lemma pre_save_valid: "Wallet_valid w \<Longrightarrow> Wallet_valid (pre_save w)"
  using pre_save_balance [of w] by (simp add: Wallet_valid_def pre_save_frame)

lemma save_invalid:
  "\<not> Wallet_valid w \<Longrightarrow> save w db = (Inl (ValidationError ''Wallet validation failed''), w, db)"
  by (simp add: save_def)

lemma save_valid:
  "Wallet_valid w \<Longrightarrow> save w db = (Inr (), pre_save w, db(IWallet.userId w \<mapsto> pre_save w))"
  by (simp add: save_def Let_def pre_save_frame)

lemma cents_log_balance:
  assumes "cents_log w"
  shows "is_cents (completed_credits w - completed_debits w)"
proof -
  have "list_all (\<lambda>t. is_cents (ITransaction.amount t))
          (filter (\<lambda>t. P t \<and> ITransaction.status t = TransactionStatus.COMPLETED) (transactions w))"
    for P
    using assms by (auto simp: cents_log_def list_all_iff)
  then show ?thesis
    unfolding completed_credits_def completed_debits_def
    by (intro is_cents_diff is_cents_sum_list)
qed

lemma ledger_ok_pre_save:
  assumes "ledger_ok w" and "Wallet_valid w"
  shows "ledger_ok (pre_save w)"
proof (cases "cents_log w")
  case True
  then have "is_cents (balance w)"
    using assms(1) cents_log_balance [OF True] by (auto simp: ledger_ok_def)
  moreover have "0 \<le> balance w"
    using assms(2) by (simp add: Wallet_valid_def)
  ultimately have "pre_save w = w"
    by (simp add: pre_save_id)
  then show ?thesis
    using assms(1) by simp
next
  case False
  then show ?thesis
    by (simp add: ledger_ok_def cents_log_def pre_save_frame)
qed

lemma stored_ok_upd:
  "stored_ok db \<Longrightarrow> IWallet.userId w = u \<Longrightarrow> Wallet_valid w \<Longrightarrow> is_cents (balance w) \<Longrightarrow>
     stored_ok (db(u \<mapsto> w))"
  by (simp add: stored_ok_def)

lemma db_ok_upd: "db_ok db \<Longrightarrow> ledger_ok w \<Longrightarrow> db_ok (db(u \<mapsto> w))"
  by (simp add: db_ok_def)

lemma wallets_okD:
  "wallets_ok db \<Longrightarrow> db u = Some w \<Longrightarrow>
     ledger_ok w \<and> IWallet.userId w = u \<and> Wallet_valid w \<and> is_cents (balance w)"
  by (simp add: wallets_ok_def db_ok_def stored_ok_def)

lemma wallets_ok_save:
  assumes "wallets_ok db" and "ledger_ok w"
  shows "wallets_ok (snd (snd (save w db)))"
proof (cases "Wallet_valid w")
  case True
  have "stored_ok (db(IWallet.userId w \<mapsto> pre_save w))"
    using assms(1) pre_save_valid [OF True] pre_save_balance [of w]
    by (intro stored_ok_upd) (simp_all add: wallets_ok_def pre_save_frame)
  moreover have "db_ok (db(IWallet.userId w \<mapsto> pre_save w))"
    using assms ledger_ok_pre_save [OF assms(2) True]
    by (intro db_ok_upd) (simp_all add: wallets_ok_def)
  ultimately show ?thesis
    by (simp add: save_valid [OF True] wallets_ok_def)
next
  case False
  then show ?thesis
    using assms(1) by (simp add: save_invalid)
qed

lemma ledger_ok_push:
  assumes "ledger_ok w"
  shows "ledger_ok
     (let w1 = w\<lparr>transactions := transactions w @ [t]\<rparr> in
       (if ITransaction.status t = TransactionStatus.COMPLETED then
                 (if ITransaction.type t = CREDIT then
                    w1\<lparr>balance := balance w1 + ITransaction.amount t\<rparr>
                  else if ITransaction.type t = DEBIT then
                    w1\<lparr>balance := balance w1 - ITransaction.amount t,
                       dailySpent := dailySpent w1 + ITransaction.amount t,
                       monthlySpent := monthlySpent w1 + ITransaction.amount t\<rparr>
                  else w1)
               else w1))"
  using assms
  by (cases "ITransaction.type t")
     (auto simp: ledger_ok_def cents_log_def Let_def completed_credits_def completed_debits_def)

lemma wallets_ok_addTransaction:
  assumes "wallets_ok db" and "ledger_ok w"
  shows "wallets_ok (snd (snd (addTransaction now d w db)))"
  unfolding addTransaction_def Let_def
  by (rule wallets_ok_save [OF assms(1)]) (rule ledger_ok_push [OF assms(2), unfolded Let_def])

lemma resetLimits_frame:
  "balance (resetLimits now w) = balance w" "transactions (resetLimits now w) = transactions w"
  "IWallet.userId (resetLimits now w) = IWallet.userId w" "isActive (resetLimits now w) = isActive w"
  "dailyLimit (resetLimits now w) = dailyLimit w" "monthlyLimit (resetLimits now w) = monthlyLimit w"
  by (simp_all add: resetLimits_def Let_def)

lemma ledger_ok_resetLimits: "ledger_ok w \<Longrightarrow> ledger_ok (resetLimits now w)"
  by (auto simp: ledger_ok_def cents_log_def completed_credits_def completed_debits_def
        resetLimits_frame)

lemma wallets_ok_debit:
  assumes "wallets_ok db" and "ledger_ok w"
  shows "wallets_ok (snd (snd (debit now a c d r w db)))"
proof -
  have "wallets_ok (snd (snd (addTransaction now x (resetLimits now w) db)))" for x
    by (intro wallets_ok_addTransaction ledger_ok_resetLimits assms)
  then show ?thesis
    using assms(1)
    by (auto simp: debit_def canSpend_def Let_def split: prod.splits sum.splits
          dest!: arg_cong [where f = "\<lambda>x. snd (snd x)"])
qed

lemma wallets_ok_credit:
  assumes "wallets_ok db" and "ledger_ok w"
  shows "wallets_ok (snd (snd (credit now a c d r w db)))"
proof -
  have "wallets_ok (snd (snd (addTransaction now x w db)))" for x
    by (intro wallets_ok_addTransaction assms)
  then show ?thesis
    using assms(1)
    by (auto simp: credit_def Let_def split: prod.splits sum.splits
          dest!: arg_cong [where f = "\<lambda>x. snd (snd x)"])
qed

lemma wallets_ok_debit':
  "wallets_ok db \<Longrightarrow> ledger_ok w \<Longrightarrow> debit now a c d r w db = (x, w', db') \<Longrightarrow> wallets_ok db'"
  using wallets_ok_debit [of db w now a c d r] by simp

lemma wallets_ok_credit':
  "wallets_ok db \<Longrightarrow> ledger_ok w \<Longrightarrow> credit now a c d r w db = (x, w', db') \<Longrightarrow> wallets_ok db'"
  using wallets_ok_credit [of db w now a c d r] by simp

lemma wallets_ok_addTransaction':
  "wallets_ok db \<Longrightarrow> ledger_ok w \<Longrightarrow> addTransaction now d w db = (x, w', db') \<Longrightarrow> wallets_ok db'"
  using wallets_ok_addTransaction [of db w now d] by simp

lemma wallets_ok_save':
  "wallets_ok db \<Longrightarrow> ledger_ok w \<Longrightarrow> save w db = (x, w', db') \<Longrightarrow> wallets_ok db'"
  using wallets_ok_save [of db w] by simp

lemma new_wallet_ok:
  "ledger_ok \<lparr> IWallet.userId = u, balance = 0, currency = c, isActive = a,
           transactions = [], dailyLimit = dl, monthlyLimit = ml, dailySpent = ds,
           monthlySpent = ms, lastResetDate = now \<rparr>"
  by (simp add: ledger_ok_def completed_credits_def completed_debits_def)

lemma createWalletForUser_result:
  assumes "wallets_ok db" and "createWalletForUser now u db = (x, db')"
  shows "wallets_ok db' \<and> (\<forall>w. x = Inr w \<longrightarrow> ledger_ok w)"
proof (cases "db u")
  case (Some a)
  then show ?thesis using assms by (auto simp: createWalletForUser_def)
next
  case None
  let ?w = "\<lparr> IWallet.userId = u, balance = 0, currency = ''USD'',
                    isActive = True, transactions = [], dailyLimit = 500,
                    monthlyLimit = 5000, dailySpent = 0, monthlySpent = 0,
                    lastResetDate = now \<rparr>"
  have v: "Wallet_valid ?w" by (simp add: Wallet_valid_def)
  have "ledger_ok (pre_save ?w)" by (intro ledger_ok_pre_save new_wallet_ok v)
  moreover have "wallets_ok (snd (snd (save ?w db)))"
    by (intro wallets_ok_save assms(1) new_wallet_ok)
  ultimately show ?thesis
    using assms(2) None by (auto simp: createWalletForUser_def save_valid [OF v])
qed

lemma wallets_ok_createWalletForUser:
  "wallets_ok db \<Longrightarrow> wallets_ok (snd (createWalletForUser now u db))"
  using createWalletForUser_result [of db now u] by (cases "createWalletForUser now u db") auto

lemma wallets_ok_getWallet:
  assumes "wallets_ok db"
  shows "wallets_ok (snd (getWallet now user db))"
proof (cases user)
  case None
  then show ?thesis using assms by (simp add: getWallet_def)
next
  case (Some u)
  obtain x db1 where c:
    "(case db u of None \<Rightarrow> createWalletForUser now u db | Some w \<Rightarrow> (Inr w, db)) = (x, db1)"
    by (cases "case db u of None \<Rightarrow> createWalletForUser now u db | Some w \<Rightarrow> (Inr w, db)")
  have 1: "wallets_ok db1 \<and> (\<forall>w. x = Inr w \<longrightarrow> ledger_ok w)"
  proof (cases "db u")
    case None
    then show ?thesis using c createWalletForUser_result [OF assms, of now u x db1] by simp
  next
    case (Some w)
    then show ?thesis using c assms wallets_okD [OF assms Some] by auto
  qed
  show ?thesis
  proof (cases x)
    case (Inl e)
    then show ?thesis using Some c 1 by (simp add: getWallet_def)
  next
    case (Inr w)
    then have "wallets_ok (snd (snd (save (resetLimits now w) db1)))"
      using 1 by (intro wallets_ok_save ledger_ok_resetLimits) auto
    then show ?thesis
      using Some c Inr by (auto simp: getWallet_def split: prod.splits sum.splits)
  qed
qed

lemma wallets_ok_topupWallet:
  "wallets_ok db \<Longrightarrow> wallets_ok (snd (topupWallet now user a m tok db))"
  by (auto simp: topupWallet_def split: option.splits prod.splits sum.splits
      dest: wallets_okD wallets_ok_addTransaction')

lemma wallets_ok_withdrawFromWallet:
  "wallets_ok db \<Longrightarrow> wallets_ok (snd (withdrawFromWallet now user a b db))"
  by (auto simp: withdrawFromWallet_def split: option.splits prod.splits sum.splits
      dest: wallets_okD wallets_ok_addTransaction')

lemma wallets_ok_transferMoney:
  assumes ok: "wallets_ok db"
  shows "wallets_ok (snd (transferMoney now i user r a d db))"
proof -
  have 2: "wallets_ok db1" if "db u = Some s"
     "debit now a c1 d1 r1 (snd (canSpend now a s)) db = (x, w', db1)" for u s c1 d1 r1 x w' db1
  proof -
    have "ledger_ok (snd (canSpend now a s))"
      using wallets_okD [OF ok that(1)] by (simp add: canSpend_def Let_def ledger_ok_resetLimits)
    then show "wallets_ok db1" using wallets_ok_debit' [OF ok _ that(2)] by simp
  qed
  have 1: "wallets_ok db2" if "db u = Some s" "db r = Some rw"
     "debit now a c1 d1 r1 (snd (canSpend now a s)) db = (x, w', db1)"
     "credit now a c2 d2 r2 rw db1 = (y, w'', db2)" for u s rw c1 d1 r1 x w' db1 c2 d2 r2 y w'' db2
  proof -
    have "wallets_ok db1" using 2 that(1,3) by blast
    then show ?thesis
      using wallets_ok_credit' [OF _ _ that(4)] wallets_okD [OF ok that(2)] by simp
  qed
  show ?thesis using ok
    unfolding transferMoney_def
    by (auto simp: Let_def split: option.splits prod.splits sum.splits intro: 1 2)
qed

lemma processRidePayment_rejected:
  "processRidePayment now t a m ts db = (\<lparr>success = False, transactionId = None\<rparr>, db)"
  by (simp add: processRidePayment_def broker_call_ride_findById_def)

lemma refundPayment_rejected: "refundPayment now t a r ts db = (False, db)"
  by (simp add: refundPayment_def broker_call_ride_findById_def)

lemma wallets_ok_perform: "wallets_ok db \<Longrightarrow> wallets_ok (perform ts x db)"
proof (cases x)
  case (Pair now op)
  assume ok: "wallets_ok db"
  show ?thesis unfolding Pair using ok
    by (cases op)
       (auto simp: wallets_ok_createWalletForUser wallets_ok_getWallet wallets_ok_topupWallet
          wallets_ok_withdrawFromWallet wallets_ok_transferMoney processRidePayment_rejected
          refundPayment_rejected split: option.splits
          intro: wallets_ok_credit wallets_ok_debit dest: wallets_okD)
qed

lemma wallets_ok_run: "wallets_ok db \<Longrightarrow> wallets_ok (run ts ops db)"
  by (induction ops arbitrary: db) (auto simp: wallets_ok_perform)

lemma wallets_ok_reachable: "wallets_ok (run ts ops Map.empty)"
  by (rule wallets_ok_run) (simp add: wallets_ok_def stored_ok_def db_ok_def)

lemma stored_ok_reachable: "stored_ok (run ts ops Map.empty)"
  using wallets_ok_reachable [of ts ops] by (simp add: wallets_ok_def)

section \<open>Claims about the wallet\<close>

subsection \<open>Balance after a save\<close>

lemma addTransaction_overdraw:
  assumes "Partial_ITransaction.status d = Some TransactionStatus.COMPLETED"
    and "Partial_ITransaction.type d = DEBIT"
    and "balance w - Partial_ITransaction.amount d < 0"
  shows "fst (addTransaction now d w db) = Inl (ValidationError ''Wallet validation failed'') \<and>
         balance (fst (snd (addTransaction now d w db))) =
           balance w - Partial_ITransaction.amount d \<and>
         snd (snd (addTransaction now d w db)) = db"
  using assms by (simp add: addTransaction_def Let_def save_def Wallet_valid_def)

lemma save_success:
  assumes "fst (save w db) = Inr ()"
  shows "0 \<le> balance w \<and>
     0 \<le> balance (fst (snd (save w db))) \<and> is_cents (balance (fst (snd (save w db)))) \<and>
     snd (snd (save w db)) (IWallet.userId w) = Some (fst (snd (save w db)))"
proof -
  have v: "Wallet_valid w"
    using assms by (auto simp: save_def split: if_splits)
  then have "0 \<le> balance w"
    by (simp add: Wallet_valid_def)
  then show ?thesis
    using pre_save_balance [of w] by (simp add: save_valid [OF v])
qed

lemma addTransaction_success:
  assumes "fst (addTransaction now d w db) = Inr ()"
  shows "0 \<le> balance (fst (snd (addTransaction now d w db))) \<and>
     is_cents (balance (fst (snd (addTransaction now d w db)))) \<and>
     snd (snd (addTransaction now d w db)) (IWallet.userId w) =
       Some (fst (snd (addTransaction now d w db)))"
proof -
  obtain w2 where e: "addTransaction now d w db = save w2 db" and u: "IWallet.userId w2 = IWallet.userId w"
    by (simp add: addTransaction_def Let_def)
  show ?thesis
    using save_success [of w2 db] assms unfolding e u by (simp add: round2_cents)
qed

lemma debit_overdraw:
  "balance w < a \<Longrightarrow>
     debit now a c d r w db =
       (Inl (Error (if isActive w then ''Insufficient balance'' else ''Wallet is not active'')),
        w, db)"
  by (simp add: debit_def)

text \<open>
  Claim C8, amended. Whenever a save succeeds, the balance of the document was not negative
  before it, the balance afterwards is non-negative and a whole number of cents, and the
  document is the one stored under the wallet's user id; so it is
  after a successful \<open>addTransaction\<close>, through which every credit, debit, topup,
  withdrawal, transfer leg, settlement and refund goes, and every wallet stored after any
  sequence of operations satisfies the validators and holds a whole number of cents. A
  COMPLETED debit handed to \<open>addTransaction\<close> whose subtraction takes the balance below zero
  is not clamped: the validators reject the document before the middleware runs, the call
  fails with the validation error, the document keeps the negative balance and the
  collection is unchanged. \<open>debit\<close> refuses an amount above the balance before it reaches
  \<open>addTransaction\<close>, leaving document and collection as they were.
\<close>

theorem balance_after_save:
  "(fst (save w db) = Inr () \<longrightarrow>
      0 \<le> balance w \<and>
      0 \<le> balance (fst (snd (save w db))) \<and> is_cents (balance (fst (snd (save w db)))) \<and>
      snd (snd (save w db)) (IWallet.userId w) = Some (fst (snd (save w db)))) \<and>
   (fst (addTransaction now d w db) = Inr () \<longrightarrow>
      0 \<le> balance (fst (snd (addTransaction now d w db))) \<and>
      is_cents (balance (fst (snd (addTransaction now d w db)))) \<and>
      snd (snd (addTransaction now d w db)) (IWallet.userId w) =
        Some (fst (snd (addTransaction now d w db)))) \<and>
   stored_ok (run ts ops Map.empty) \<and>
   (Partial_ITransaction.status d = Some TransactionStatus.COMPLETED \<and>
    Partial_ITransaction.type d = DEBIT \<and> balance w - Partial_ITransaction.amount d < 0 \<longrightarrow>
      fst (addTransaction now d w db) = Inl (ValidationError ''Wallet validation failed'') \<and>
      balance (fst (snd (addTransaction now d w db))) =
        balance w - Partial_ITransaction.amount d \<and>
      snd (snd (addTransaction now d w db)) = db) \<and>
   (balance w < a \<longrightarrow>
      debit now a c e r w db =
        (Inl (Error (if isActive w then ''Insufficient balance'' else ''Wallet is not active'')),
         w, db))"
  using save_success [of w db] addTransaction_success [of now d w db]
    stored_ok_reachable [of ts ops] addTransaction_overdraw [of d w now db]
    debit_overdraw [of w a now c e r db]
  by blast

text \<open>A new wallet after one topup.\<close>

lemma run_topup:
  "1 \<le> a \<Longrightarrow> a \<le> 1000 \<Longrightarrow> run [] (topup_ops a) Map.empty =
    [''p1'' \<mapsto>
      (wallet_of ''p1'' (round2 a) True 0)
        \<lparr>transactions :=
           [\<lparr> ITransaction.type = CREDIT, amount = a, category = WALLET_TOPUP,
              status = TransactionStatus.COMPLETED, description = ''Wallet topup via stripe'',
              referenceId = None, paymentMethod = Some ''stripe'', createdAt = today,
              completedAt = Some today \<rparr>]\<rparr>]"
  by (simp add: topup_ops_def createWalletForUser_def save_def Wallet_valid_def
        Transaction_valid_def pre_save_def Let_def
        topupWallet_def addTransaction_def round2_id is_cents_0 wallet_of_def round2_nonneg)


text \<open>
  Claim C8 as stated fails in its last part: a COMPLETED debit of 10 added to a stored wallet
  holding 5 is not clamped to 0. \<open>addTransaction\<close> fails with the validation error, the
  document in memory is left at -5 and the stored wallet still holds 5.
\<close>

theorem clamp_counterexample:
  "Partial_ITransaction.status overdraw = Some TransactionStatus.COMPLETED \<and>
   Partial_ITransaction.type overdraw = DEBIT \<and>
   balance (wallet_of ''p1'' 5 True 0) - Partial_ITransaction.amount overdraw < 0 \<and>
   fst (addTransaction today overdraw (wallet_of ''p1'' 5 True 0)
          [''p1'' \<mapsto> wallet_of ''p1'' 5 True 0]) =
     Inl (ValidationError ''Wallet validation failed'') \<and>
   balance (fst (snd (addTransaction today overdraw (wallet_of ''p1'' 5 True 0)
          [''p1'' \<mapsto> wallet_of ''p1'' 5 True 0]))) = - 5 \<and>
   map_option balance
     (snd (snd (addTransaction today overdraw (wallet_of ''p1'' 5 True 0)
          [''p1'' \<mapsto> wallet_of ''p1'' 5 True 0])) ''p1'') = Some 5"
  by (simp add: overdraw_def wallet_of_def addTransaction_def Let_def save_def Wallet_valid_def)

theorem balance_after_save_witness:
  "fst (save (wallet_of ''p1'' 5 True 0) Map.empty) = Inr () \<and>
   balance (fst (snd (save (wallet_of ''p1'' 5 True 0) Map.empty))) = 5 \<and>
   fst (addTransaction today (overdraw\<lparr>Partial_ITransaction.type := CREDIT\<rparr>)
          (wallet_of ''p1'' 5 True 0) Map.empty) = Inr () \<and>
   balance (fst (snd (addTransaction today (overdraw\<lparr>Partial_ITransaction.type := CREDIT\<rparr>)
          (wallet_of ''p1'' 5 True 0) Map.empty))) = 15 \<and>
   Partial_ITransaction.status overdraw = Some TransactionStatus.COMPLETED \<and>
   Partial_ITransaction.type overdraw = DEBIT \<and>
   balance (wallet_of ''p1'' 5 True 0) - Partial_ITransaction.amount overdraw < 0 \<and>
   fst (addTransaction today overdraw (wallet_of ''p1'' 5 True 0) Map.empty) =
     Inl (ValidationError ''Wallet validation failed'') \<and>
   balance (fst (snd (addTransaction today overdraw (wallet_of ''p1'' 5 True 0) Map.empty))) =
     - 5 \<and>
   snd (snd (addTransaction today overdraw (wallet_of ''p1'' 5 True 0) Map.empty)) ''p1'' =
     None \<and>
   balance (wallet_of ''p1'' 5 True 0) < 10 \<and>
   debit today 10 PENALTY ''penalty'' None (wallet_of ''p1'' 5 True 0) Map.empty =
     (Inl (Error ''Insufficient balance''), wallet_of ''p1'' 5 True 0, Map.empty) \<and>
   map_option balance (run [] (topup_ops (5003 / 500)) Map.empty ''p1'') = Some (1001 / 100)"
proof -
  have v: "Wallet_valid (wallet_of ''p1'' 5 True 0)"
    by (simp add: Wallet_valid_def wallet_of_def)
  have s: "fst (save (wallet_of ''p1'' 5 True 0) Map.empty) = Inr ()"
    by (simp add: save_valid [OF v])
  have r5: "round2 5 = 5" "round2 15 = 15"
    by (simp_all add: round2_def Math_round_def)
  have s5: "balance (fst (snd (save (wallet_of ''p1'' 5 True 0) Map.empty))) = 5"
    using r5 by (simp add: save_def Wallet_valid_def pre_save_def wallet_of_def Let_def)
  have c: "fst (addTransaction today (overdraw\<lparr>Partial_ITransaction.type := CREDIT\<rparr>)
          (wallet_of ''p1'' 5 True 0) Map.empty) = Inr () \<and>
     balance (fst (snd (addTransaction today (overdraw\<lparr>Partial_ITransaction.type := CREDIT\<rparr>)
          (wallet_of ''p1'' 5 True 0) Map.empty))) = 15"
    by (simp add: overdraw_def wallet_of_def addTransaction_def Let_def save_def
          Wallet_valid_def Transaction_valid_def pre_save_def r5)
  have t: "map_option balance (run [] (topup_ops (5003 / 500)) Map.empty ''p1'') =
      Some (1001 / 100)"
    by (simp add: run_topup wallet_of_def) (simp add: round2_def Math_round_def)
  have o: "Partial_ITransaction.status overdraw = Some TransactionStatus.COMPLETED"
    "Partial_ITransaction.type overdraw = DEBIT"
    "balance (wallet_of ''p1'' 5 True 0) - Partial_ITransaction.amount overdraw < 0"
    "balance (wallet_of ''p1'' 5 True 0) < 10" "isActive (wallet_of ''p1'' 5 True 0)"
    "balance (wallet_of ''p1'' 5 True 0) = 5" "Partial_ITransaction.amount overdraw = 10"
    by (simp_all add: overdraw_def wallet_of_def)
  show ?thesis
    using balance_after_save [of "wallet_of ''p1'' 5 True 0" Map.empty today overdraw
            "[]" "[]" 10 PENALTY "''penalty''" None] s s5 c t o r5
    by simp
qed

subsection \<open>Debits that fail\<close>

text \<open>
  Claim C4 as stated fails: the activity check comes first, so a debit of 10 on an inactive
  wallet holding 5 fails with the not-active error, not with the insufficient-balance error.
\<close>

theorem debit_inactive_counterexample:
  "balance (wallet_of ''p1'' 5 False 0) < 10 \<and>
   fst (debit today 10 RIDE_PAYMENT ''Payment for trip t1'' (Some ''t1'')
          (wallet_of ''p1'' 5 False 0) Map.empty) = Inl (Error ''Wallet is not active'') \<and>
   Error ''Wallet is not active'' \<noteq> Error ''Insufficient balance''"
  by (simp add: debit_def wallet_of_def)

text \<open>
  Claim C4, amended. On an inactive wallet every debit fails with the not-active error and
  changes neither the document nor the collection. On an active wallet, a debit of more than
  the balance fails with the insufficient-balance error and changes neither. On an active
  wallet that holds the amount, a debit for which the double sum of the amount and the daily
  or the monthly counter, as the counter stands after the calendar reset of the limit check,
  exceeds the limit fails with the limit-exceeded error; the collection is unchanged, hence
  the stored balance, counters and log, and no transaction is appended; the document in
  memory keeps its balance and its log and carries the reset counters.
\<close>

theorem debit_failures:
  "(\<not> isActive w \<longrightarrow>
      debit now a c d r w db = (Inl (Error ''Wallet is not active''), w, db)) \<and>
   (isActive w \<and> balance w < a \<longrightarrow>
      debit now a c d r w db = (Inl (Error ''Insufficient balance''), w, db)) \<and>
   (isActive w \<and> a \<le> balance w \<and>
    (dailyLimit w < add_d (dailySpent (resetLimits now w)) a \<or>
     monthlyLimit w < add_d (monthlySpent (resetLimits now w)) a) \<longrightarrow>
      debit now a c d r w db =
        (Inl (Error ''Transaction exceeds spending limits''), resetLimits now w, db) \<and>
      balance (resetLimits now w) = balance w \<and>
      transactions (resetLimits now w) = transactions w)"
  by (auto simp: debit_def canSpend_def Let_def resetLimits_frame)

theorem debit_failures_witness:
  "\<not> isActive (wallet_of ''p1'' 50 False 0) \<and>
   debit today 10 RIDE_PAYMENT ''Payment for trip t1'' (Some ''t1'')
     (wallet_of ''p1'' 50 False 0) Map.empty =
     (Inl (Error ''Wallet is not active''), wallet_of ''p1'' 50 False 0, Map.empty) \<and>
   isActive (wallet_of ''p1'' 5 True 0) \<and> balance (wallet_of ''p1'' 5 True 0) < 10 \<and>
   debit today 10 RIDE_PAYMENT ''Payment for trip t1'' (Some ''t1'')
     (wallet_of ''p1'' 5 True 0) Map.empty =
     (Inl (Error ''Insufficient balance''), wallet_of ''p1'' 5 True 0, Map.empty) \<and>
   isActive (wallet_of ''p1'' 1000 True 450) \<and> 100 \<le> balance (wallet_of ''p1'' 1000 True 450) \<and>
   dailyLimit (wallet_of ''p1'' 1000 True 450) <
     add_d (dailySpent (resetLimits today (wallet_of ''p1'' 1000 True 450))) 100 \<and>
   debit today 100 RIDE_PAYMENT ''Payment for trip t1'' (Some ''t1'')
     (wallet_of ''p1'' 1000 True 450) Map.empty =
     (Inl (Error ''Transaction exceeds spending limits''), wallet_of ''p1'' 1000 True 450,
      Map.empty)"
proof -
  have f: "add_d 450 100 = 550"
    by code_simp
  show ?thesis
    using debit_failures [of "wallet_of ''p1'' 50 False 0" today 10 RIDE_PAYMENT
            "''Payment for trip t1''" "Some ''t1''" Map.empty]
          debit_failures [of "wallet_of ''p1'' 5 True 0" today 10 RIDE_PAYMENT
            "''Payment for trip t1''" "Some ''t1''" Map.empty]
          debit_failures [of "wallet_of ''p1'' 1000 True 450" today 100 RIDE_PAYMENT
            "''Payment for trip t1''" "Some ''t1''" Map.empty]
    by (simp add: wallet_of_def resetLimits_def today_def f)
qed

subsection \<open>Withdrawals\<close>

text \<open>
  Claim C10. On a wallet of a collection the operations have produced, active and holding the
  amount, \<open>withdrawFromWallet\<close> succeeds for an amount of at least 10 and complete bank
  details; it appends one debit of category withdrawal whose status is PENDING, not
  COMPLETED, and leaves the balance and both spend counters as they were.
\<close>

theorem withdrawal_stays_pending:
  assumes "db = run ts ops Map.empty" and "db u = Some w" and "isActive w"
    and "10 \<le> a" and "a \<le> balance w"
    and "accountNumber b \<noteq> []" and "routingNumber b \<noteq> []" and "accountHolderName b \<noteq> []"
  shows "\<exists>w' t. withdrawFromWallet now (Some u) a b db = (Inr w', db(u \<mapsto> w')) \<and>
           transactions w' = transactions w @ [t] \<and>
           ITransaction.type t = DEBIT \<and> ITransaction.category t = WITHDRAWAL \<and>
           ITransaction.amount t = a \<and>
           ITransaction.status t = TransactionStatus.PENDING \<and>
           ITransaction.status t \<noteq> TransactionStatus.COMPLETED \<and>
           balance w' = balance w \<and> dailySpent w' = dailySpent w \<and>
           monthlySpent w' = monthlySpent w"
proof -
  have "stored_ok db"
    unfolding assms(1) by (rule stored_ok_reachable)
  with assms(2) have key: "IWallet.userId w = u" and cents: "is_cents (balance w)"
    and valid: "Wallet_valid w"
    by (simp_all add: stored_ok_def)
  have nn: "0 \<le> balance w" "0 \<le> a"
    using assms(4,5) by simp_all
  have r: "round2 (balance w) = balance w"
    using cents by (rule round2_id)
  have len: "length (accountNumber b) - (length (accountNumber b) - 4) \<le> 4"
    by simp
  show ?thesis
    using assms(2-) key nn r valid len
    by (simp add: withdrawFromWallet_def addTransaction_def save_def Wallet_valid_def
          Transaction_valid_def pre_save_def Let_def)
qed

theorem withdrawal_stays_pending_witness:
  "\<exists>w w' t. run [] (topup_ops 100) Map.empty ''p1'' = Some w \<and> isActive w \<and>
          40 \<le> balance w \<and>
          withdrawFromWallet today (Some ''p1'') 40 acct (run [] (topup_ops 100) Map.empty) =
            (Inr w', (run [] (topup_ops 100) Map.empty)(''p1'' \<mapsto> w')) \<and>
          transactions w' = transactions w @ [t] \<and>
          ITransaction.status t = TransactionStatus.PENDING \<and>
          balance w' = 100 \<and> dailySpent w' = 0 \<and> monthlySpent w' = 0"
proof -
  let ?db = "run [] (topup_ops 100) Map.empty"
  obtain w where w: "?db ''p1'' = Some w" "isActive w" "balance w = 100" "dailySpent w = 0"
      "monthlySpent w = 0"
    by (simp add: run_topup wallet_of_def round2_def Math_round_def)
  have b: "accountNumber acct \<noteq> []" "routingNumber acct \<noteq> []" "accountHolderName acct \<noteq> []"
    by (simp_all add: acct_def)
  from withdrawal_stays_pending [OF refl w(1,2) _ _ b, of 40 today] w(3)
  obtain w' t where
    "withdrawFromWallet today (Some ''p1'') 40 acct ?db = (Inr w', ?db(''p1'' \<mapsto> w'))"
    "transactions w' = transactions w @ [t]"
    "ITransaction.status t = TransactionStatus.PENDING"
    "balance w' = balance w" "dailySpent w' = dailySpent w" "monthlySpent w' = monthlySpent w"
    by auto
  with w show ?thesis
    by auto
qed

subsection \<open>The ledger equation\<close>





subsection \<open>Settlement\<close>


section \<open>Trip status\<close>

lemma status_updateStatus [simp]: "ITrip.status (updateStatus now s t) = s"
  by (cases s) simp_all

lemma status_populate [simp]: "ITrip.status (populate ds t) = ITrip.status t"
  by (simp add: populate_def)

lemma passengerId_populate [simp]: "passengerId (populate ds t) = passengerId t"
  by (simp add: populate_def)









lemma acceptRide_on_taken_trip:
  assumes "Trip_findById tripId (trips db) = Some t" and "ITrip.status t \<noteq> REQUESTED"
  shows "\<exists>e. acceptRide now user userRole tripId db = (Inl e, db)"
  using assms by (auto simp: acceptRide_def split: option.splits)







text \<open>
  Claim C9. ACCEPTED is not among the driver-only statuses. On a REQUESTED trip without a
  driver, the trip's passenger calls \<open>updateTripStatus\<close> with ACCEPTED: the call succeeds,
  and the trip returned and the trip stored are ACCEPTED with \<open>acceptedAt\<close> set and no
  driver bound; the driver of the collection stays as it was.
\<close>

theorem passenger_accepts_own_trip:
  "ACCEPTED \<notin> set driverOnlyStatuses \<and>
   fst (updateTripStatus today (Some ''p1'') ''t1'' ACCEPTED unbound_db) =
     Inr ((trip_of ''t1'' ''p1'' None ACCEPTED)\<lparr>acceptedAt := Some today\<rparr>) \<and>
   Trip_findById ''t1''
     (trips (snd (updateTripStatus today (Some ''p1'') ''t1'' ACCEPTED unbound_db))) =
     Some ((trip_of ''t1'' ''p1'' None ACCEPTED)\<lparr>acceptedAt := Some today\<rparr>) \<and>
   ITrip.status ((trip_of ''t1'' ''p1'' None ACCEPTED)\<lparr>acceptedAt := Some today\<rparr>) = ACCEPTED \<and>
   acceptedAt ((trip_of ''t1'' ''p1'' None ACCEPTED)\<lparr>acceptedAt := Some today\<rparr>) = Some today \<and>
   driverId ((trip_of ''t1'' ''p1'' None ACCEPTED)\<lparr>acceptedAt := Some today\<rparr>) = None \<and>
   Trip_findById ''t1'' (trips unbound_db) = Some (trip_of ''t1'' ''p1'' None REQUESTED) \<and>
   drivers (snd (updateTripStatus today (Some ''p1'') ''t1'' ACCEPTED unbound_db)) =
     drivers unbound_db"
  by (simp add: updateTripStatus_def unbound_db_def rides_def trip_of_def Trip_findById_def
       populate_def depopulate_def Trip_save_def driverOnlyStatuses_def Let_def)

section \<open>Requesting a ride\<close>

lemma find_append_None: "find P xs = None \<Longrightarrow> find P (xs @ ys) = find P ys"
  by (induction xs) (auto split: if_splits)

text \<open>
  The fare the service computes for a non-negative distance and duration satisfies the
  validators of the fare schema.
\<close>

lemma mul_d_nonneg: "0 \<le> a \<Longrightarrow> 0 \<le> b \<Longrightarrow> 0 \<le> mul_d a b"
  by (simp add: mul_d_def fl_nonneg)

lemma add_d_nonneg: "0 \<le> a \<Longrightarrow> 0 \<le> b \<Longrightarrow> 0 \<le> add_d a b"
  by (simp add: add_d_def fl_nonneg)

lemma round2_d_nonneg:
  assumes "0 \<le> v"
  shows "0 \<le> round2_d v"
proof -
  have "0 \<le> mul_d v 100"
    using assms by (simp add: mul_d_nonneg)
  then have "0 \<le> Math_round (mul_d v 100)"
    by (simp add: Math_round_def)
  then show ?thesis
    by (simp add: round2_d_def div_d_def fl_nonneg)
qed

lemma calculateFare_valid:
  assumes "0 \<le> d" and "0 \<le> t"
  shows "FareBreakdown_valid (calculateFare d t v)"
proof -
  have r: "0 \<le> fl (120 / 100)" "0 \<le> fl (8 / 100)"
    by (simp_all add: fl_nonneg)
  have df: "0 \<le> mul_d d (if v = Some ''luxury'' then 2 else fl (120 / 100))"
    using assms(1) r(1) by (simp add: mul_d_nonneg)
  have tf: "0 \<le> mul_d t (25 / 100)"
    using assms(2) by (simp add: mul_d_nonneg)
  have s1: "0 \<le> add_d (250 / 100)
                    (mul_d d (if v = Some ''luxury'' then 2 else fl (120 / 100)))"
    by (rule add_d_nonneg) (simp, rule df)
  have s2: "0 \<le> add_d (add_d (250 / 100)
                    (mul_d d (if v = Some ''luxury'' then 2 else fl (120 / 100))))
                  (mul_d t (25 / 100))"
    by (rule add_d_nonneg [OF s1 tf])
  have sub: "0 \<le> subtotal (calculateFare d t v)"
    unfolding ride_subtotal by (rule mul_d_nonneg [OF s2]) simp
  have tx: "0 \<le> tax (calculateFare d t v)"
    unfolding ride_tax using sub r(2) by (rule mul_d_nonneg)
  have tot: "0 \<le> totalFare (calculateFare d t v)"
    unfolding ride_total using sub tx by (intro round2_d_nonneg add_d_nonneg)
  show ?thesis
    using df tf tx tot by (simp add: FareBreakdown_valid_def calculateFare_fields)
qed

text \<open>
  A request that passes the request schema, with both locations inside the coordinate
  range and a non-negative computed distance, yields a trip document that the validators of
  the trip schema accept: the save stores it.
\<close>

lemma new_trip_saved:
  assumes "Location_valid (RequestRide.pickupLocation rd)"
    and "Location_valid (RequestRide.dropoffLocation rd)"
    and "RequestRide.vehicleType rd \<noteq> []"
    and "\<not> (case RequestRide.specialInstructions rd of
               None \<Rightarrow> False | Some i \<Rightarrow> 500 < length i)"
    and "0 \<le> km"
  shows "\<exists>trip. Trip_save_new
           \<lparr> ITrip.oid = newId, passengerId = u, driverId = None,
             ITrip.status = REQUESTED,
             ITrip.pickupLocation = RequestRide.pickupLocation rd,
             ITrip.dropoffLocation = RequestRide.dropoffLocation rd,
             estimatedDistance = km,
             estimatedDuration = max (mul_d km 2) 5,
             fareBreakdown = calculateFare km (max (mul_d km 2) 5) None,
             ITrip.paymentMethod = RequestRide.paymentMethod rd,
             paymentStatus = PaymentStatus.PENDING,
             requestedAt = now, acceptedAt = None, driverArrivedAt = None,
             startedAt = None, ITrip.completedAt = None, cancelledAt = None,
             cancellationReason = None, cancelledBy = None,
             ITrip.specialInstructions = RequestRide.specialInstructions rd,
             ITrip.vehicleType = RequestRide.vehicleType rd \<rparr> ts = (Inr trip, ts @ [trip]) \<and>
           ITrip.oid trip = newId \<and> passengerId trip = u \<and> ITrip.status trip = REQUESTED \<and>
           driverId trip = None"
proof -
  have "(0::rat) \<le> max (mul_d km 2) 5"
    by simp
  then have "FareBreakdown_valid (calculateFare km (max (mul_d km 2) 5) None)"
    using assms(5) by (intro calculateFare_valid)
  then show ?thesis
    using assms
    by (auto simp: Trip_save_new_def Trip_valid_def Let_def depopulate_def
          split: option.splits)
qed

text \<open>
  What \<open>requestRide\<close> does when candidates exist: the trip is stored in state REQUESTED,
  the drivers are notified and the requested event carries the candidates' ids.
\<close>

lemma requestRide_with_candidates:
  assumes "userRole = Some PASSENGER" and "user = Some u"
    and "Location_valid (RequestRide.pickupLocation rd)"
    and "Location_valid (RequestRide.dropoffLocation rd)"
    and "RequestRide.vehicleType rd \<noteq> []"
    and "\<not> (case RequestRide.specialInstructions rd of
               None \<Rightarrow> False | Some i \<Rightarrow> 500 < length i)"
    and "0 \<le> hav (snd (coordinates (RequestRide.pickupLocation rd)))
                 (fst (coordinates (RequestRide.pickupLocation rd)))
                 (snd (coordinates (RequestRide.dropoffLocation rd)))
                 (fst (coordinates (RequestRide.dropoffLocation rd)))"
    and "find (\<lambda>t. passengerId t = u \<and> ITrip.status t \<in> set activeForPassenger) (trips db) =
           None"
    and "findNearbyDrivers geo (snd (coordinates (RequestRide.pickupLocation rd)))
           (fst (coordinates (RequestRide.pickupLocation rd))) (RequestRide.vehicleType rd)
           (drivers db) = c # cs"
  shows "\<exists>trip. fst (requestRide hav geo now newId user userRole rd db) = Inr trip \<and>
           trips (snd (requestRide hav geo now newId user userRole rd db)) = trips db @ [trip] \<and>
           ITrip.oid trip = newId \<and> passengerId trip = u \<and> ITrip.status trip = REQUESTED \<and>
           events (snd (requestRide hav geo now newId user userRole rd db)) =
             events db @ notifyDrivers (c # cs) trip @
               [ride_requested trip (map IDriver.oid (c # cs))]"
proof -
  let ?km = "hav (snd (coordinates (RequestRide.pickupLocation rd)))
                 (fst (coordinates (RequestRide.pickupLocation rd)))
                 (snd (coordinates (RequestRide.dropoffLocation rd)))
                 (fst (coordinates (RequestRide.dropoffLocation rd)))"
  have a: "address (RequestRide.pickupLocation rd) \<noteq> []"
    "address (RequestRide.dropoffLocation rd) \<noteq> []"
    using assms(3,4) by (simp_all add: Location_valid_def)
  from new_trip_saved [OF assms(3-7), of newId u now "trips db"]
  obtain trip where s: "Trip_save_new
           \<lparr> ITrip.oid = newId, passengerId = u, driverId = None,
             ITrip.status = REQUESTED,
             ITrip.pickupLocation = RequestRide.pickupLocation rd,
             ITrip.dropoffLocation = RequestRide.dropoffLocation rd,
             estimatedDistance = ?km,
             estimatedDuration = max (mul_d ?km 2) 5,
             fareBreakdown = calculateFare ?km (max (mul_d ?km 2) 5) None,
             ITrip.paymentMethod = RequestRide.paymentMethod rd,
             paymentStatus = PaymentStatus.PENDING,
             requestedAt = now, acceptedAt = None, driverArrivedAt = None,
             startedAt = None, ITrip.completedAt = None, cancelledAt = None,
             cancellationReason = None, cancelledBy = None,
             ITrip.specialInstructions = RequestRide.specialInstructions rd,
             ITrip.vehicleType = RequestRide.vehicleType rd \<rparr> (trips db) =
           (Inr trip, trips db @ [trip])"
      and t: "ITrip.oid trip = newId" "passengerId trip = u" "ITrip.status trip = REQUESTED"
    by blast
  have "requestRide hav geo now newId user userRole rd db =
      (Inr trip,
       db\<lparr>trips := trips db @ [trip],
          events := events db @ notifyDrivers (c # cs) trip @
               [ride_requested trip (map IDriver.oid (c # cs))]\<rparr>)"
    using assms(1,2,5,6,8,9) a s by (simp add: requestRide_def Let_def)
  then show ?thesis
    using t by simp
qed

text \<open>
  A request whose pickup or dropoff coordinates lie outside the range of the location
  schema passes the request schema but not the trip's validators: the save is rejected,
  nothing is stored and nothing is published.
\<close>

lemma requestRide_invalid_location:
  assumes "userRole = Some PASSENGER" and "user = Some u"
    and "address (RequestRide.pickupLocation rd) \<noteq> []"
    and "address (RequestRide.dropoffLocation rd) \<noteq> []"
    and "RequestRide.vehicleType rd \<noteq> []"
    and "\<not> (case RequestRide.specialInstructions rd of
               None \<Rightarrow> False | Some i \<Rightarrow> 500 < length i)"
    and "find (\<lambda>t. passengerId t = u \<and> ITrip.status t \<in> set activeForPassenger) (trips db) =
           None"
    and "\<not> Location_valid (RequestRide.pickupLocation rd) \<or>
         \<not> Location_valid (RequestRide.dropoffLocation rd)"
  shows "requestRide hav geo now newId user userRole rd db =
           (Inl (Error ''Trip validation failed''), db)"
  using assms
  by (auto simp: requestRide_def Let_def Trip_save_new_def Trip_valid_def)

text \<open>
  Claim C7, on the code. For a request that passes the request schema, with both locations
  inside the coordinate range of the trip schema and a non-negative computed distance, by a
  passenger without an active trip: with no eligible candidate \<open>requestRide\<close> fails with
  the no-drivers error, as claimed, and publishes nothing; but the trip was saved before the
  search, so the collection holds a new REQUESTED trip of the requester, and the requester's
  next request is refused for having an active trip.
\<close>

theorem request_without_drivers_leaves_trip:
  assumes "userRole = Some PASSENGER" and "user = Some u"
    and "Location_valid (RequestRide.pickupLocation rd)"
    and "Location_valid (RequestRide.dropoffLocation rd)"
    and "RequestRide.vehicleType rd \<noteq> []"
    and "\<not> (case RequestRide.specialInstructions rd of
               None \<Rightarrow> False | Some i \<Rightarrow> 500 < length i)"
    and "0 \<le> hav (snd (coordinates (RequestRide.pickupLocation rd)))
                 (fst (coordinates (RequestRide.pickupLocation rd)))
                 (snd (coordinates (RequestRide.dropoffLocation rd)))
                 (fst (coordinates (RequestRide.dropoffLocation rd)))"
    and "find (\<lambda>t. passengerId t = u \<and> ITrip.status t \<in> set activeForPassenger) (trips db) =
           None"
    and "findNearbyDrivers geo (snd (coordinates (RequestRide.pickupLocation rd)))
           (fst (coordinates (RequestRide.pickupLocation rd))) (RequestRide.vehicleType rd)
           (drivers db) = []"
  shows "fst (requestRide hav geo now newId user userRole rd db) =
           Inl (Error ''No drivers available in your area'') \<and>
         (\<exists>trip. trips (snd (requestRide hav geo now newId user userRole rd db)) =
                   trips db @ [trip] \<and>
                 ITrip.oid trip = newId \<and> passengerId trip = u \<and>
                 ITrip.status trip = REQUESTED \<and> driverId trip = None) \<and>
         drivers (snd (requestRide hav geo now newId user userRole rd db)) = drivers db \<and>
         events (snd (requestRide hav geo now newId user userRole rd db)) = events db \<and>
         fst (requestRide hav geo now' newId' user userRole rd
                (snd (requestRide hav geo now newId user userRole rd db))) =
           Inl (Error ''You already have an active trip'')"
proof -
  let ?r = "requestRide hav geo now newId user userRole rd db"
  let ?km = "hav (snd (coordinates (RequestRide.pickupLocation rd)))
                 (fst (coordinates (RequestRide.pickupLocation rd)))
                 (snd (coordinates (RequestRide.dropoffLocation rd)))
                 (fst (coordinates (RequestRide.dropoffLocation rd)))"
  have a: "address (RequestRide.pickupLocation rd) \<noteq> []"
    "address (RequestRide.dropoffLocation rd) \<noteq> []"
    using assms(3,4) by (simp_all add: Location_valid_def)
  from new_trip_saved [OF assms(3-7), of newId u now "trips db"]
  obtain trip where s: "Trip_save_new
           \<lparr> ITrip.oid = newId, passengerId = u, driverId = None,
             ITrip.status = REQUESTED,
             ITrip.pickupLocation = RequestRide.pickupLocation rd,
             ITrip.dropoffLocation = RequestRide.dropoffLocation rd,
             estimatedDistance = ?km,
             estimatedDuration = max (mul_d ?km 2) 5,
             fareBreakdown = calculateFare ?km (max (mul_d ?km 2) 5) None,
             ITrip.paymentMethod = RequestRide.paymentMethod rd,
             paymentStatus = PaymentStatus.PENDING,
             requestedAt = now, acceptedAt = None, driverArrivedAt = None,
             startedAt = None, ITrip.completedAt = None, cancelledAt = None,
             cancellationReason = None, cancelledBy = None,
             ITrip.specialInstructions = RequestRide.specialInstructions rd,
             ITrip.vehicleType = RequestRide.vehicleType rd \<rparr> (trips db) =
           (Inr trip, trips db @ [trip])"
      and t: "ITrip.oid trip = newId" "passengerId trip = u" "ITrip.status trip = REQUESTED"
        "driverId trip = None"
    by blast
  have r: "?r = (Inl (Error ''No drivers available in your area''),
                 db\<lparr>trips := trips db @ [trip]\<rparr>)"
    using assms(1,2,5,6,8,9) a s by (simp add: requestRide_def Let_def)
  have "find (\<lambda>t. passengerId t = u \<and> ITrip.status t \<in> set activeForPassenger)
          (trips (snd ?r)) = Some trip"
    unfolding r using assms(8) t(2,3)
    by (simp add: find_append_None activeForPassenger_def)
  then have 4: "fst (requestRide hav geo now' newId' user userRole rd (snd ?r)) =
           Inl (Error ''You already have an active trip'')"
    using assms(1,2,5,6) a by (simp add: requestRide_def)
  show ?thesis
    using r t 4 by simp
qed

theorem request_without_drivers_leaves_trip_witness:
  "Location_valid (RequestRide.pickupLocation request_sedan) \<and>
   Location_valid (RequestRide.dropoffLocation request_sedan) \<and>
   findNearbyDrivers same_spot 0 0 ''sedan'' (drivers offline_db) = [] \<and>
   trips offline_db = [] \<and>
   fst (requestRide ten_km same_spot today ''t1'' (Some ''p1'') (Some PASSENGER) request_sedan
          offline_db) = Inl (Error ''No drivers available in your area'') \<and>
   map ITrip.oid (trips (snd (requestRide ten_km same_spot today ''t1'' (Some ''p1'')
          (Some PASSENGER) request_sedan offline_db))) = [''t1''] \<and>
   map ITrip.status (trips (snd (requestRide ten_km same_spot today ''t1'' (Some ''p1'')
          (Some PASSENGER) request_sedan offline_db))) = [REQUESTED] \<and>
   fst (requestRide ten_km same_spot today ''t2'' (Some ''p1'') (Some PASSENGER) request_sedan
          (snd (requestRide ten_km same_spot today ''t1'' (Some ''p1'') (Some PASSENGER)
                  request_sedan offline_db))) = Inl (Error ''You already have an active trip'')"
proof -
  have n: "findNearbyDrivers same_spot 0 0 ''sedan'' (drivers offline_db) = []"
    by (simp add: findNearbyDrivers_def offline_db_def rides_def driver_of_def)
  have e: "trips offline_db = []"
    by (simp add: offline_db_def rides_def)
  have c: "coordinates (RequestRide.pickupLocation request_sedan) = (0, 0)"
    "RequestRide.vehicleType request_sedan = ''sedan''"
    "RequestRide.specialInstructions request_sedan = None"
    by (simp_all add: request_sedan_def place_def)
  have l: "Location_valid (RequestRide.pickupLocation request_sedan)"
    "Location_valid (RequestRide.dropoffLocation request_sedan)"
    by (simp_all add: request_sedan_def place_def Location_valid_def)
  have h: "0 \<le> ten_km a b c' d" for a b c' d
    by (simp add: ten_km_def)
  from request_without_drivers_leaves_trip
    [where userRole = "Some PASSENGER" and user = "Some ''p1''" and u = "''p1''"
       and rd = request_sedan and hav = ten_km and db = offline_db and geo = same_spot
       and now = today and newId = "''t1''" and now' = today and newId' = "''t2''"]
    n e c l h
  show ?thesis
    by auto
qed

section \<open>Acceptance by several drivers\<close>

text \<open>
  Run alone, the five steps of the cut action are \<open>acceptRide\<close>.
\<close>

lemma accept_steps_acceptRide:
  "((\<lambda>(pc, db). accept_step now user userRole tripId pc db) ^^ 5) (At_start, db) =
     (Done (fst (acceptRide now user userRole tripId db)),
      snd (acceptRide now user userRole tripId db))"
  by (simp add: numeral_eq_Suc acceptRide_def Let_def split: option.splits)

text \<open>
  One call after the other: on a REQUESTED trip the call of an available driver without an
  active trip succeeds and leaves the trip ACCEPTED and bound to that driver; every call after
  it, by whomever, fails and changes nothing.
\<close>

lemma accept_in_turn_on_taken_trip:
  assumes "Trip_findById tripId (trips db) = Some t" and "ITrip.status t \<noteq> REQUESTED"
  shows "snd (accept_in_turn now tripId us db) = db \<and>
         length (fst (accept_in_turn now tripId us db)) = length us \<and>
         list_all (\<lambda>r. \<exists>e. r = Inl e) (fst (accept_in_turn now tripId us db))"
proof (induction us)
  case Nil
  show ?case by simp
next
  case (Cons u us)
  obtain e where "acceptRide now (Some u) (Some DRIVER) tripId db = (Inl e, db)"
    using acceptRide_on_taken_trip [OF assms] by blast
  then show ?case using Cons by (simp add: split_def)
qed

lemma find_map_replace:
  assumes "find (\<lambda>x. f x = i) xs = Some x0" and "f y = i"
  shows "find (\<lambda>x. f x = i) (map (\<lambda>x. if f x = i then y else x) xs) = Some y"
  using assms by (induction xs) (auto split: if_splits)

lemma acceptRide_first:
  assumes "Driver_findOne u (drivers db) = Some d" and "isAvailableForRide d"
    and "Trip_findActiveOfDriver (IDriver.oid d) (trips db) = None"
    and "Trip_findById tripId (trips db) = Some t" and "ITrip.status t = REQUESTED"
  shows "\<exists>t1. fst (acceptRide now (Some u) (Some DRIVER) tripId db) = Inr t1 \<and>
           Trip_findById tripId (trips (snd (acceptRide now (Some u) (Some DRIVER) tripId db))) =
             Some t1 \<and>
           ITrip.status t1 = ACCEPTED \<and> driverId t1 = Some (Ref (IDriver.oid d))"
proof -
  have i: "ITrip.oid t = tripId"
    using assms(4) unfolding Trip_findById_def by (auto dest: find_Some_iff [THEN iffD1])
  let ?t1 = "updateStatus now ACCEPTED (t\<lparr>driverId := Some (Ref (IDriver.oid d))\<rparr>)"
  have d: "depopulate ?t1 = ?t1" by (simp add: depopulate_def)
  have o: "ITrip.oid ?t1 = tripId" using i by simp
  have "find (\<lambda>x. ITrip.oid x = tripId)
          (map (\<lambda>x. if ITrip.oid x = tripId then ?t1 else x) (trips db)) = Some ?t1"
    using assms(4) o unfolding Trip_findById_def by (rule find_map_replace)
  then have "Trip_findById tripId (Trip_save ?t1 (trips db)) = Some ?t1"
    unfolding Trip_findById_def Trip_save_def d o .
  then show ?thesis using assms by (simp add: acceptRide_def Let_def)
qed

lemma exactly_first_in_turn:
  assumes "Driver_findOne u (drivers db) = Some d" and "isAvailableForRide d"
    and "Trip_findActiveOfDriver (IDriver.oid d) (trips db) = None"
    and "Trip_findById tripId (trips db) = Some t" and "ITrip.status t = REQUESTED"
  shows "\<exists>t1 rs. fst (accept_in_turn now tripId (u # us) db) = Inr t1 # rs \<and>
           length rs = length us \<and> list_all (\<lambda>r. \<exists>e. r = Inl e) rs \<and>
           Trip_findById tripId (trips (snd (accept_in_turn now tripId (u # us) db))) = Some t1 \<and>
           ITrip.status t1 = ACCEPTED \<and> driverId t1 = Some (Ref (IDriver.oid d))"
proof -
  obtain r db1 where a: "acceptRide now (Some u) (Some DRIVER) tripId db = (r, db1)"
    by (cases "acceptRide now (Some u) (Some DRIVER) tripId db")
  from acceptRide_first [OF assms, of now] a obtain t1 where
    t1: "r = Inr t1" "Trip_findById tripId (trips db1) = Some t1" "ITrip.status t1 = ACCEPTED"
      "driverId t1 = Some (Ref (IDriver.oid d))"
    by auto
  have "ITrip.status t1 \<noteq> REQUESTED" using t1(3) by simp
  from accept_in_turn_on_taken_trip [OF t1(2) this, of now us]
  show ?thesis using a t1 by (simp add: split_def)
qed

text \<open>
  Made one after the other on a REQUESTED trip, the calls of two available drivers end as the
  claim says: the first succeeds, the second is told the trip is no longer available, and the
  trip is ACCEPTED and bound to the first driver.
\<close>

lemma acceptance_in_turn:
  "accept_in_turn today ''t1'' [''u1'', ''u2''] requested_db =
   ([Inr (bound_to ''d1''), Inl (Error ''Trip is no longer available'')],
    \<lparr> trips = [bound_to ''d1''],
      drivers = [(driver_of ''d1'' ''u1'')\<lparr>availability := BUSY\<rparr>, driver_of ''d2'' ''u2''],
      events = [ride_accepted (bound_to ''d1'')
                  ((driver_of ''d1'' ''u1'')\<lparr>availability := BUSY\<rparr>)] \<rparr>)"
  by (simp add: requested_db_def rides_def trip_of_def driver_of_def bound_to_def acceptRide_def
        Driver_findOne_def isAvailableForRide_def Trip_findActiveOfDriver_def Trip_findById_def
        Trip_save_def Driver_save_def depopulate_def Let_def activeForDriver_def)

text \<open>
  Claim C3, on the code. The action reads the trip, tests its status and writes it back
  in separate steps. When two drivers call it concurrently and their steps alternate, both
  load the trip while it is REQUESTED and both save it: both calls succeed, each returning the
  trip bound to its own driver, the stored trip is bound to the driver who saved last, and both
  drivers are set BUSY.
\<close>

theorem acceptance_race:
  "accept_run today ''t1'' [0, 1, 0, 1, 0, 1, 0, 1, 0, 1]
     ([(''u1'', At_start), (''u2'', At_start)], requested_db) =
   ([(''u1'', Done (Inr (bound_to ''d1''))), (''u2'', Done (Inr (bound_to ''d2'')))],
    \<lparr> trips = [bound_to ''d2''],
      drivers = [(driver_of ''d1'' ''u1'')\<lparr>availability := BUSY\<rparr>,
                 (driver_of ''d2'' ''u2'')\<lparr>availability := BUSY\<rparr>],
      events = [ride_accepted (bound_to ''d1'')
                  ((driver_of ''d1'' ''u1'')\<lparr>availability := BUSY\<rparr>),
                ride_accepted (bound_to ''d2'')
                  ((driver_of ''d2'' ''u2'')\<lparr>availability := BUSY\<rparr>)] \<rparr>)"
  by (simp add: requested_db_def rides_def trip_of_def driver_of_def bound_to_def
        Driver_findOne_def isAvailableForRide_def Trip_findActiveOfDriver_def Trip_findById_def
        Trip_save_def Driver_save_def depopulate_def Let_def activeForDriver_def)

end
